theory Spec2Isabelle
  imports Main
begin

section \<open>Python values, errors and text\<close>

text \<open>
  The module \<^verbatim>\<open>asa_objects.py\<close> is embedded function by function. A method that
  mutates its receiver takes the object and returns the updated one; a method that can
  raise returns \<open>error + 'a\<close> with the exception on the left.
\<close>

text \<open>
  The exceptions the module and the library calls it makes can raise. \<open>ValueError\<close> and
  \<open>AssertionError\<close> carry the message of the \<^verbatim>\<open>raise\<close> or \<^verbatim>\<open>assert\<close> statement.
  \<open>AddressValueError\<close> and \<open>NetmaskValueError\<close> are the two subclasses of ValueError
  of the \<^verbatim>\<open>ipaddress\<close> module.

  \<open>OutsideModel\<close> is no exception of the program. A character of the model is a code
  point below 256, and \<open>OutsideModel\<close> stands for a result that holds a character
  above that range: the program returns a string there, and the model says nothing
  about it.
\<close>

datatype error =
    ValueError string
  | AssertionError string
  | TypeError
  | AttributeError
  | NotImplementedError
  | AddressValueError
  | NetmaskValueError
  | OutsideModel

definition bind :: "error + 'a \<Rightarrow> ('a \<Rightarrow> error + 'b) \<Rightarrow> error + 'b" where
  "bind r f = (case r of Inl e \<Rightarrow> Inl e | Inr x \<Rightarrow> f x)"

text \<open>
  A dynamically typed argument: \<^verbatim>\<open>None\<close>, an integer or a string. It is used where
  the source accepts several of them (\<^verbatim>\<open>icmp_type\<close>, \<^verbatim>\<open>ip\<close>, \<^verbatim>\<open>netmask\<close>,
  \<^verbatim>\<open>CIDR\<close>, \<^verbatim>\<open>fqdn\<close>).
\<close>

datatype pyval = PNone | PInt int | PStr string

text \<open>\<^verbatim>\<open>str(n)\<close> for an integer: its decimal digits, with a sign when negative.\<close>

definition digit_char :: "nat \<Rightarrow> char" where
  "digit_char d = ''0123456789'' ! d"

fun str_nat :: "nat \<Rightarrow> string" where
  "str_nat n = (if n < 10 then [digit_char n] else str_nat (n div 10) @ [digit_char (n mod 10)])"

declare str_nat.simps [simp del]

definition str_int :: "int \<Rightarrow> string" where
  "str_int i = (if i < 0 then CHR ''-'' # str_nat (nat (- i)) else str_nat (nat i))"

text \<open>\<^verbatim>\<open>str(v)\<close>, which is also what an f-string field \<^verbatim>\<open>{v}\<close> renders.\<close>

fun str :: "pyval \<Rightarrow> string" where
  "str PNone = ''None''"
| "str (PInt i) = str_int i"
| "str (PStr s) = s"

text \<open>Truth value of a value in a condition (\<^verbatim>\<open>if v\<close>, \<^verbatim>\<open>not v\<close>, \<^verbatim>\<open>assert v\<close>).\<close>

fun truthy :: "pyval \<Rightarrow> bool" where
  "truthy PNone = False"
| "truthy (PInt i) = (i \<noteq> 0)"
| "truthy (PStr s) = (s \<noteq> [])"

text \<open>The same for an optional integer and an optional string attribute.\<close>

definition str_opt_int :: "int option \<Rightarrow> string" where
  "str_opt_int p = (case p of None \<Rightarrow> ''None'' | Some i \<Rightarrow> str_int i)"

definition truthy_int :: "int option \<Rightarrow> bool" where
  "truthy_int p = (case p of None \<Rightarrow> False | Some i \<Rightarrow> i \<noteq> 0)"

definition truthy_str :: "string option \<Rightarrow> bool" where
  "truthy_str s = (case s of None \<Rightarrow> False | Some t \<Rightarrow> t \<noteq> [])"

text \<open>
  \<^verbatim>\<open>str.upper\<close> on the characters below code point 256. The letters a-z and the
  letters U+00E0 to U+00FE (but not the division sign U+00F7) map to the character 32
  code points below; U+00DF maps to the two letters \<^verbatim>\<open>SS\<close>; the upper case of U+00B5
  is U+039C and that of U+00FF is U+0178, both above code point 255, for which
  \<open>upper_char\<close> is \<open>None\<close> and \<open>upper\<close> is \<open>OutsideModel\<close>; every other character
  is left as it is.
\<close>

definition upper_char :: "char \<Rightarrow> string option" where
  "upper_char c =
     (let n = (of_char c :: nat) in
      if 97 \<le> n \<and> n \<le> 122 then Some [char_of (n - 32)]
      else if n = 223 then Some ''SS''
      else if (224 \<le> n \<and> n \<le> 246) \<or> (248 \<le> n \<and> n \<le> 254) then Some [char_of (n - 32)]
      else if n = 181 \<or> n = 255 then None
      else Some [c])"

fun upper :: "string \<Rightarrow> error + string" where
  "upper [] = Inr []"
| "upper (c # cs) =
     (case upper_char c of
        None \<Rightarrow> Inl OutsideModel
      | Some u \<Rightarrow> bind (upper cs) (\<lambda>r. Inr (u @ r)))"

text \<open>
  \<open>is_ascii_digit\<close> is \<^verbatim>\<open>c.isascii() and c.isdigit()\<close>. \<^verbatim>\<open>str.isnumeric\<close> is true when
  the string is not empty and every character is numeric. Below code point 256 the
  numeric characters are the ten digits and the superscripts and fractions
  U+00B2, U+00B3, U+00B9, U+00BC, U+00BD, U+00BE.
\<close>

definition is_ascii_digit :: "char \<Rightarrow> bool" where
  "is_ascii_digit c = (let n = (of_char c :: nat) in 48 \<le> n \<and> n \<le> 57)"

definition is_numeric_char :: "char \<Rightarrow> bool" where
  "is_numeric_char c =
     (let n = (of_char c :: nat) in
      (48 \<le> n \<and> n \<le> 57) \<or> n = 178 \<or> n = 179 \<or> n = 185 \<or> n = 188 \<or> n = 189 \<or> n = 190)"

definition isnumeric :: "string \<Rightarrow> bool" where
  "isnumeric s = (s \<noteq> [] \<and> list_all is_numeric_char s)"

text \<open>The number a string of decimal digits denotes.\<close>

definition digit_val :: "char \<Rightarrow> nat" where
  "digit_val c = (of_char c :: nat) - 48"

definition digits_val :: "string \<Rightarrow> nat" where
  "digits_val s = foldl (\<lambda>a c. 10 * a + digit_val c) 0 s"

text \<open>
  \<^verbatim>\<open>int(v)\<close>. An integer is returned as it is; \<^verbatim>\<open>None\<close> raises TypeError. For
  a string the source calls \<^verbatim>\<open>int\<close> only after \<^verbatim>\<open>isnumeric\<close> held, so the string
  has no sign, blank or underscore: it converts when all its characters are decimal
  digits and raises ValueError (invalid literal) otherwise.
\<close>

fun int_of :: "pyval \<Rightarrow> error + int" where
  "int_of PNone = Inl TypeError"
| "int_of (PInt i) = Inr i"
| "int_of (PStr s) =
     (if s \<noteq> [] \<and> list_all is_ascii_digit s then Inr (int (digits_val s))
      else Inl (ValueError ''invalid literal for int() with base 10''))"

section \<open>Service objects\<close>

subsection \<open>\<^verbatim>\<open>_ServiceObject\<close>\<close>

datatype PortSelecterType = SINGLE | RANGE | LESS_THAN | GREATER_THAN | NOT_EQUALS

text \<open>The \<^verbatim>\<open>.value\<close> of a member of the enumeration.\<close>

fun selecter_value :: "PortSelecterType \<Rightarrow> string" where
  "selecter_value SINGLE = ''eq''"
| "selecter_value RANGE = ''range''"
| "selecter_value LESS_THAN = ''lt''"
| "selecter_value GREATER_THAN = ''gt''"
| "selecter_value NOT_EQUALS = ''neq''"

text \<open>
  The instance attribute \<^verbatim>\<open>_name\<close> that the \<^verbatim>\<open>name\<close> property reads and writes
  (a leading underscore is written \<open>u_\<close>). The concrete classes extend this record, as
  they inherit from \<^verbatim>\<open>_ServiceObject\<close>.
\<close>

record ServiceObject =
  u_name :: "string option"

text \<open>
  The methods of the base class are parameterised by the two methods a subclass
  overrides, \<^verbatim>\<open>generate_name\<close> and \<^verbatim>\<open>cli_attributes\<close>.

  The \<^verbatim>\<open>name\<close> property getter: the stored name when it is set and not empty,
  otherwise the result of \<^verbatim>\<open>generate_name()\<close>.
\<close>

definition name_getter ::
  "('a ServiceObject_scheme \<Rightarrow> error + string \<times> 'a ServiceObject_scheme) \<Rightarrow>
   'a ServiceObject_scheme \<Rightarrow> error + string \<times> 'a ServiceObject_scheme" where
  "name_getter generate_name self =
     (case u_name self of
        Some n \<Rightarrow> if n \<noteq> [] then Inr (n, self) else generate_name self
      | None \<Rightarrow> generate_name self)"

definition name_setter :: "'a ServiceObject_scheme \<Rightarrow> string option \<Rightarrow> 'a ServiceObject_scheme" where
  "name_setter self name = self\<lparr>u_name := name\<rparr>"

text \<open>
  \<^verbatim>\<open>cli_definition\<close>: reads \<^verbatim>\<open>self.name\<close>, calls \<^verbatim>\<open>generate_name()\<close> when that is
  empty, then reads \<^verbatim>\<open>self.name\<close> again for the line.
\<close>

definition ServiceObject_cli_definition ::
  "('a ServiceObject_scheme \<Rightarrow> error + string \<times> 'a ServiceObject_scheme) \<Rightarrow>
   'a ServiceObject_scheme \<Rightarrow> error + string \<times> 'a ServiceObject_scheme" where
  "ServiceObject_cli_definition generate_name self =
     bind (name_getter generate_name self) (\<lambda>(n, self).
     bind (if n = [] then bind (generate_name self) (\<lambda>(_, self). Inr self) else Inr self) (\<lambda>self.
     bind (name_getter generate_name self) (\<lambda>(n, self).
     Inr (''object service '' @ n, self))))"

text \<open>\<^verbatim>\<open>cli_full\<close>: \<^verbatim>\<open>[self.cli_definition(), self.cli_attributes(), '!']\<close>.\<close>

definition ServiceObject_cli_full ::
  "('a ServiceObject_scheme \<Rightarrow> error + string \<times> 'a ServiceObject_scheme) \<Rightarrow>
   ('a ServiceObject_scheme \<Rightarrow> error + string) \<Rightarrow>
   'a ServiceObject_scheme \<Rightarrow> error + string list \<times> 'a ServiceObject_scheme" where
  "ServiceObject_cli_full generate_name cli_attributes self =
     bind (ServiceObject_cli_definition generate_name self) (\<lambda>(d, self).
     bind (cli_attributes self) (\<lambda>a.
     Inr ([d, a, ''!''], self)))"

subsection \<open>\<^verbatim>\<open>_TcpOrUdpObject\<close>, \<^verbatim>\<open>TcpObject\<close> and \<^verbatim>\<open>UdpObject\<close>\<close>

text \<open>
  The two concrete classes differ in the class attribute \<^verbatim>\<open>_OBJECT_TYPE\<close> only.
\<close>

datatype ServiceClass = TcpObject | UdpObject

fun OBJECT_TYPE :: "ServiceClass \<Rightarrow> string" where
  "OBJECT_TYPE TcpObject = ''tcp''"
| "OBJECT_TYPE UdpObject = ''udp''"

text \<open>
  The instance attributes. The two selector types are plain attributes; the four
  ports are stored in \<^verbatim>\<open>_source_port\<close>, \<^verbatim>\<open>_source_end_port\<close>, \<^verbatim>\<open>_dest_port\<close> and
  \<^verbatim>\<open>_dest_end_port\<close> and reached through properties. A port is an integer or
  \<^verbatim>\<open>None\<close>, as the setters' annotation \<^verbatim>\<open>port: int\<close> says.
\<close>

record TcpOrUdpObject = ServiceObject +
  cls :: ServiceClass
  source_port_selecter_type :: "PortSelecterType option"
  u_source_port :: "int option"
  u_source_end_port :: "int option"
  dest_port_selecter_type :: "PortSelecterType option"
  u_dest_port :: "int option"
  u_dest_end_port :: "int option"

text \<open>\<^verbatim>\<open>_check_port\<close>.\<close>

definition u_check_port :: "int option \<Rightarrow> error + bool" where
  "u_check_port port =
     (case port of
        None \<Rightarrow> Inr False
      | Some p \<Rightarrow>
          if \<not> (0 \<le> p \<and> p \<le> 65535) then Inl (ValueError ''Port value is out of range'')
          else Inr True)"

text \<open>
  A Python \<^verbatim>\<open>property\<close> object: its getter and, once one is attached, its setter.
  \<^verbatim>\<open>@property\<close> builds one from a getter; \<^verbatim>\<open>@p.setter\<close> returns a copy of the
  property \<^verbatim>\<open>p\<close> with the decorated function as setter, and the class body binds that
  copy to the name of the decorated function. Reading \<^verbatim>\<open>obj.x\<close> calls the getter of
  the property bound to \<^verbatim>\<open>x\<close>; assigning \<^verbatim>\<open>obj.x = v\<close> calls its setter.
\<close>

record ('o, 'v) property =
  fget :: "'o \<Rightarrow> 'v"
  fset :: "('o \<Rightarrow> 'v \<Rightarrow> error + 'o) option"

definition property :: "('o \<Rightarrow> 'v) \<Rightarrow> ('o, 'v) property" where
  "property g = \<lparr>fget = g, fset = None\<rparr>"

definition setter :: "('o, 'v) property \<Rightarrow> ('o \<Rightarrow> 'v \<Rightarrow> error + 'o) \<Rightarrow> ('o, 'v) property" where
  "setter p f = p\<lparr>fset := Some f\<rparr>"

definition getattr :: "('o, 'v) property \<Rightarrow> 'o \<Rightarrow> 'v" where
  "getattr p self = fget p self"

definition setattr :: "('o, 'v) property \<Rightarrow> 'o \<Rightarrow> 'v \<Rightarrow> error + 'o" where
  "setattr p self v = (case fset p of None \<Rightarrow> Inl AttributeError | Some f \<Rightarrow> f self v)"

text \<open>
  The four port properties, in the order of the class body. \<^verbatim>\<open>source_port\<close>,
  \<^verbatim>\<open>source_end_port\<close> and \<^verbatim>\<open>dest_port\<close> are each built by \<^verbatim>\<open>@property\<close> and
  completed by their own \<^verbatim>\<open>.setter\<close>.
\<close>

definition source_port :: "(TcpOrUdpObject, int option) property" where
  "source_port =
     setter (property (\<lambda>self. u_source_port self))
       (\<lambda>self port. bind (u_check_port port) (\<lambda>_. Inr (self\<lparr>u_source_port := port\<rparr>)))"

definition source_end_port :: "(TcpOrUdpObject, int option) property" where
  "source_end_port =
     setter (property (\<lambda>self. u_source_end_port self))
       (\<lambda>self port. bind (u_check_port port) (\<lambda>_. Inr (self\<lparr>u_source_end_port := port\<rparr>)))"

definition dest_port :: "(TcpOrUdpObject, int option) property" where
  "dest_port =
     setter (property (\<lambda>self. u_dest_port self))
       (\<lambda>self port. bind (u_check_port port) (\<lambda>_. Inr (self\<lparr>u_dest_port := port\<rparr>)))"

text \<open>
  \<^verbatim>\<open>dest_end_port\<close> is first bound to \<^verbatim>\<open>property(lambda self: self._dest_end_port)\<close>.
  The function that stores \<^verbatim>\<open>_dest_end_port\<close> is then decorated with
  \<^verbatim>\<open>@dest_port.setter\<close>, not \<^verbatim>\<open>@dest_end_port.setter\<close>: the class ends with
  \<^verbatim>\<open>dest_end_port\<close> bound to a copy of the \<^verbatim>\<open>dest_port\<close> property that has this
  function as its setter.
\<close>

definition dest_end_port_getter_only :: "(TcpOrUdpObject, int option) property" where
  "dest_end_port_getter_only = property (\<lambda>self. u_dest_end_port self)"

definition dest_end_port :: "(TcpOrUdpObject, int option) property" where
  "dest_end_port =
     setter dest_port
       (\<lambda>self port. bind (u_check_port port) (\<lambda>_. Inr (self\<lparr>u_dest_end_port := port\<rparr>)))"

text \<open>\<^verbatim>\<open>generate_name\<close>; it stores the name in \<^verbatim>\<open>_name\<close> and returns it.\<close>

definition TcpOrUdp_generate_name :: "TcpOrUdpObject \<Rightarrow> error + string \<times> TcpOrUdpObject" where
  "TcpOrUdp_generate_name self =
     bind (upper (OBJECT_TYPE (cls self))) (\<lambda>object_type.
     (let name = ''SVC_'' @ object_type in
     bind
       (case source_port_selecter_type self of
          None \<Rightarrow> Inr name
        | Some t \<Rightarrow>
            if t = RANGE then
              Inr (name @ ''_SRC_RANGE_'' @ str_opt_int (getattr source_port self) @ ''-''
                     @ str_opt_int (getattr source_end_port self))
            else
              bind (upper (selecter_value t)) (\<lambda>v.
              Inr (name @ ''_SRC_'' @ v @ ''_'' @ str_opt_int (getattr source_port self))))
       (\<lambda>name.
     bind
       (case dest_port_selecter_type self of
          None \<Rightarrow> Inr name
        | Some t \<Rightarrow>
            if t = RANGE then
              Inr (name @ ''_DEST_RANGE_'' @ str_opt_int (getattr dest_port self) @ ''-''
                     @ str_opt_int (getattr dest_end_port self))
            else
              bind (upper (selecter_value t)) (\<lambda>v.
              Inr (name @ ''_DEST_'' @ v @ ''_'' @ str_opt_int (getattr dest_port self))))
       (\<lambda>name.
     Inr (name, self\<lparr>u_name := Some name\<rparr>)))))"

text \<open>
  \<^verbatim>\<open>cli_attributes\<close>. The two leading assertions (each selector type is unset or a
  member of \<^verbatim>\<open>PortSelecterType\<close>) hold for every value of the option type. The
  source clause and the destination clause are computed in this order, then joined.
\<close>

definition cli_attributes_source :: "TcpOrUdpObject \<Rightarrow> error + string" where
  "cli_attributes_source self =
     (case source_port_selecter_type self of
        None \<Rightarrow> Inr []
      | Some t \<Rightarrow>
          if t = RANGE then
            if \<not> (truthy_int (getattr source_port self) \<and> truthy_int (getattr source_end_port self))
            then Inl (AssertionError ''Range starting or ending port not defined'')
            else Inr ('' source '' @ selecter_value t @ '' '' @ str_opt_int (getattr source_port self)
                        @ '' '' @ str_opt_int (getattr source_end_port self))
          else
            if \<not> truthy_int (getattr source_port self)
            then Inl (AssertionError ''Source port not defined'')
            else Inr ('' source '' @ selecter_value t @ '' '' @ str_opt_int (getattr source_port self)))"

definition cli_attributes_dest :: "TcpOrUdpObject \<Rightarrow> error + string" where
  "cli_attributes_dest self =
     (case dest_port_selecter_type self of
        None \<Rightarrow> Inr []
      | Some t \<Rightarrow>
          if t = RANGE then
            if \<not> (truthy_int (getattr dest_port self) \<and> truthy_int (getattr dest_end_port self))
            then Inl (AssertionError ''Range starting or ending port not defined'')
            else Inr ('' source '' @ selecter_value t @ '' '' @ str_opt_int (getattr dest_port self)
                        @ '' '' @ str_opt_int (getattr dest_end_port self))
          else
            if \<not> truthy_int (getattr dest_port self)
            then Inl (AssertionError ''Destination port not defined'')
            else Inr ('' destination '' @ selecter_value t @ '' '' @ str_opt_int (getattr dest_port self)))"

definition TcpOrUdp_cli_attributes :: "TcpOrUdpObject \<Rightarrow> error + string" where
  "TcpOrUdp_cli_attributes self =
     bind (cli_attributes_source self) (\<lambda>source.
     bind (cli_attributes_dest self) (\<lambda>dest.
     Inr (''service '' @ OBJECT_TYPE (cls self) @ source @ dest)))"

text \<open>The inherited methods, with the overrides of this class.\<close>

definition TcpOrUdp_name :: "TcpOrUdpObject \<Rightarrow> error + string \<times> TcpOrUdpObject" where
  "TcpOrUdp_name = name_getter TcpOrUdp_generate_name"

definition TcpOrUdp_cli_definition :: "TcpOrUdpObject \<Rightarrow> error + string \<times> TcpOrUdpObject" where
  "TcpOrUdp_cli_definition = ServiceObject_cli_definition TcpOrUdp_generate_name"

definition TcpOrUdp_cli_full :: "TcpOrUdpObject \<Rightarrow> error + string list \<times> TcpOrUdpObject" where
  "TcpOrUdp_cli_full = ServiceObject_cli_full TcpOrUdp_generate_name TcpOrUdp_cli_attributes"

text \<open>
  \<^verbatim>\<open>__init__\<close>. Its seven parameters are keyword parameters that default to
  \<^verbatim>\<open>None\<close>; the body assigns them in this order, the ports through their properties.
\<close>

record TcpOrUdp_args =
  arg_source_port_selecter_type :: "PortSelecterType option"
  arg_source_port :: "int option"
  arg_source_end_port :: "int option"
  arg_dest_port_selecter_type :: "PortSelecterType option"
  arg_dest_port :: "int option"
  arg_dest_end_port :: "int option"
  arg_name :: "string option"

definition no_args :: TcpOrUdp_args where
  "no_args =
     \<lparr>arg_source_port_selecter_type = None, arg_source_port = None, arg_source_end_port = None,
      arg_dest_port_selecter_type = None, arg_dest_port = None, arg_dest_end_port = None,
      arg_name = None\<rparr>"

text \<open>The instance before \<^verbatim>\<open>__init__\<close> has run: no attribute is set yet.\<close>

definition blank :: "ServiceClass \<Rightarrow> TcpOrUdpObject" where
  "blank c =
     \<lparr>u_name = None, cls = c, source_port_selecter_type = None, u_source_port = None,
      u_source_end_port = None, dest_port_selecter_type = None, u_dest_port = None,
      u_dest_end_port = None\<rparr>"

definition TcpOrUdp_init :: "TcpOrUdpObject \<Rightarrow> TcpOrUdp_args \<Rightarrow> error + TcpOrUdpObject" where
  "TcpOrUdp_init self a =
     (let self = name_setter self (arg_name a);
          self = self\<lparr>source_port_selecter_type := arg_source_port_selecter_type a\<rparr>
      in
      bind (setattr source_port self (arg_source_port a)) (\<lambda>self.
      bind (setattr source_end_port self (arg_source_end_port a)) (\<lambda>self.
      (let self = self\<lparr>dest_port_selecter_type := arg_dest_port_selecter_type a\<rparr> in
      bind (setattr dest_port self (arg_dest_port a)) (\<lambda>self.
      setattr dest_end_port self (arg_dest_end_port a))))))"

text \<open>
  A call \<^verbatim>\<open>TcpObject(k1=v1, ...)\<close> or \<^verbatim>\<open>UdpObject(k1=v1, ...)\<close>. \<open>keywords\<close> are
  the names \<^verbatim>\<open>k1, ...\<close> written at the call; \<open>a\<close> holds the values given for the
  parameters of \<^verbatim>\<open>__init__\<close>, the others at their default. The signature has no
  \<^verbatim>\<open>**kwargs\<close>, so a keyword that names no parameter raises TypeError before the
  body runs.
\<close>

definition init_parameters :: "string list" where
  "init_parameters =
     [''source_port_selecter_type'', ''source_port'', ''source_end_port'',
      ''dest_port_selecter_type'', ''dest_port'', ''dest_end_port'', ''name'']"

definition construct :: "ServiceClass \<Rightarrow> string list \<Rightarrow> TcpOrUdp_args \<Rightarrow> error + TcpOrUdpObject" where
  "construct c keywords a =
     (if list_all (\<lambda>k. k \<in> set init_parameters) keywords then TcpOrUdp_init (blank c) a
      else Inl TypeError)"

subsection \<open>\<^verbatim>\<open>IcmpObject\<close>\<close>

text \<open>
  The type is \<^verbatim>\<open>None\<close>, an integer or a string (the setter's annotation is
  \<^verbatim>\<open>any\<close>); the code is an integer or \<^verbatim>\<open>None\<close>.
\<close>

record IcmpObject = ServiceObject +
  u_icmp_code :: "int option"
  u_icmp_type :: pyval

text \<open>\<^verbatim>\<open>_verify_icmp_code\<close>. \<^verbatim>\<open>int(None)\<close> raises TypeError.\<close>

definition u_verify_icmp_code :: "int option \<Rightarrow> bool \<Rightarrow> error + bool" where
  "u_verify_icmp_code v raise_error =
     bind (case v of None \<Rightarrow> Inl TypeError | Some i \<Rightarrow> Inr i) (\<lambda>i.
     if 1 \<le> i \<and> i \<le> 255 then Inr True
     else if raise_error then Inl (ValueError ''The given ICMP code is invalid'')
     else Inr False)"

text \<open>\<^verbatim>\<open>_verify_icmp_type\<close>.\<close>

definition u_verify_icmp_type :: "pyval \<Rightarrow> bool \<Rightarrow> error + bool" where
  "u_verify_icmp_type v raise_error =
     (if (case v of PStr s \<Rightarrow> \<not> isnumeric s | _ \<Rightarrow> False) then Inr True
      else if \<not> truthy v then Inl (ValueError ''ICMP Type not set'')
      else
        bind (int_of v) (\<lambda>i.
        if 0 \<le> i \<and> i \<le> 255 then Inr True
        else if raise_error then Inl (ValueError ''The given ICMP type is invalid'')
        else Inr False))"

text \<open>
  The setters of the \<^verbatim>\<open>icmp_code\<close> and \<^verbatim>\<open>icmp_type\<close> properties. \<^verbatim>\<open>None\<close> is
  stored without validation; another value is validated with \<^verbatim>\<open>raise_error\<close> at its
  default \<^verbatim>\<open>True\<close> and stored. The getters return the stored attribute.
\<close>

definition icmp_code_setter :: "IcmpObject \<Rightarrow> int option \<Rightarrow> error + IcmpObject" where
  "icmp_code_setter self v =
     (if v = None then Inr (self\<lparr>u_icmp_code := None\<rparr>)
      else bind (u_verify_icmp_code v True) (\<lambda>ok.
           if ok then Inr (self\<lparr>u_icmp_code := v\<rparr>) else Inr self))"

definition icmp_type_setter :: "IcmpObject \<Rightarrow> pyval \<Rightarrow> error + IcmpObject" where
  "icmp_type_setter self v =
     (if v = PNone then Inr (self\<lparr>u_icmp_type := PNone\<rparr>)
      else bind (u_verify_icmp_type v True) (\<lambda>ok.
           if ok then Inr (self\<lparr>u_icmp_type := v\<rparr>) else Inr self))"

definition icmp_code :: "IcmpObject \<Rightarrow> int option" where
  "icmp_code self = u_icmp_code self"

definition icmp_type :: "IcmpObject \<Rightarrow> pyval" where
  "icmp_type self = u_icmp_type self"

text \<open>
  \<^verbatim>\<open>generate_name\<close>. It assigns the upper-cased name through the \<^verbatim>\<open>name\<close> setter and
  ends with \<^verbatim>\<open>return self.name\<close>, a read through the \<^verbatim>\<open>name\<close> getter, which would
  call \<^verbatim>\<open>generate_name\<close> again if the stored name were empty.
\<close>

function Icmp_generate_name :: "IcmpObject \<Rightarrow> error + string \<times> IcmpObject" where
  "Icmp_generate_name self =
     (if \<not> truthy (icmp_type self)
      then Inl (AssertionError ''ICMP type attribute unset during name generation'')
      else
        (let name = ''SVC_ICMP_TYPE_'' @ str (icmp_type self);
             name = (if truthy_int (icmp_code self)
                     then name @ ''_CODE_'' @ str_opt_int (icmp_code self) else name)
         in case upper name of
              Inl e \<Rightarrow> Inl e
            | Inr upper_name \<Rightarrow>
                (let self = name_setter self (Some upper_name)
                 in case u_name self of
                      Some n \<Rightarrow> if n \<noteq> [] then Inr (n, self) else Icmp_generate_name self
                    | None \<Rightarrow> Icmp_generate_name self)))"
  by pat_completeness auto
termination
  by (relation "{}")
    (auto simp: name_setter_def upper_char_def bind_def Let_def split: if_splits sum.splits)

declare Icmp_generate_name.simps [simp del]

text \<open>\<^verbatim>\<open>cli_attributes\<close>.\<close>

definition Icmp_cli_attributes :: "IcmpObject \<Rightarrow> error + string" where
  "Icmp_cli_attributes self =
     bind (u_verify_icmp_type (icmp_type self) True) (\<lambda>_.
     bind (u_verify_icmp_code (u_icmp_code self) True) (\<lambda>_.
     (let c = '' service icmp '' @ str (icmp_type self);
          c = (if truthy_int (icmp_code self) then c @ '' '' @ str_opt_int (icmp_code self) else c)
      in Inr c)))"

text \<open>The inherited methods (the class overrides two of them only to call them).\<close>

definition Icmp_name :: "IcmpObject \<Rightarrow> error + string \<times> IcmpObject" where
  "Icmp_name = name_getter Icmp_generate_name"

definition Icmp_cli_definition :: "IcmpObject \<Rightarrow> error + string \<times> IcmpObject" where
  "Icmp_cli_definition = ServiceObject_cli_definition Icmp_generate_name"

definition Icmp_cli_full :: "IcmpObject \<Rightarrow> error + string list \<times> IcmpObject" where
  "Icmp_cli_full = ServiceObject_cli_full Icmp_generate_name Icmp_cli_attributes"

text \<open>
  \<^verbatim>\<open>IcmpObject(name, icmp_type, icmp_code)\<close>: \<^verbatim>\<open>__init__\<close> assigns the name, then the
  code, then the type.
\<close>

definition IcmpObject_init :: "string option \<Rightarrow> pyval \<Rightarrow> int option \<Rightarrow> error + IcmpObject" where
  "IcmpObject_init name ty code =
     (let self = name_setter \<lparr>u_name = None, u_icmp_code = None, u_icmp_type = PNone\<rparr> name in
      bind (icmp_code_setter self code) (\<lambda>self.
      icmp_type_setter self ty))"

section \<open>Network objects\<close>

subsection \<open>\<^verbatim>\<open>ipaddress.IPv4Network\<close>\<close>

unbundle bit_operations_syntax

text \<open>
  The part of the standard library's \<^verbatim>\<open>ipaddress\<close> module that the source calls:
  \<^verbatim>\<open>IPv4Network(address)\<close> in strict mode and the attributes \<^verbatim>\<open>network_address\<close>,
  \<^verbatim>\<open>netmask\<close> and \<^verbatim>\<open>prefixlen\<close>. An address is its 32-bit number; the netmask of
  a network is determined by its prefix length.
\<close>

record IPv4Network =
  network_address :: int
  prefixlen :: nat

definition ALL_ONES :: int where
  "ALL_ONES = 4294967295"

text \<open>\<^verbatim>\<open>_ip_int_from_prefix\<close> and the \<^verbatim>\<open>netmask\<close> attribute.\<close>

definition ip_int_from_prefix :: "nat \<Rightarrow> int" where
  "ip_int_from_prefix p = ALL_ONES XOR (drop_bit p ALL_ONES)"

definition netmask :: "IPv4Network \<Rightarrow> int" where
  "netmask n = ip_int_from_prefix (prefixlen n)"

text \<open>\<^verbatim>\<open>str\<close> of an \<^verbatim>\<open>IPv4Address\<close>: the four octets in decimal, joined by dots.\<close>

definition str_address :: "int \<Rightarrow> string" where
  "str_address a =
     str_int (a div 16777216 mod 256) @ ''.'' @ str_int (a div 65536 mod 256) @ ''.'' @
     str_int (a div 256 mod 256) @ ''.'' @ str_int (a mod 256)"

text \<open>\<^verbatim>\<open>s.split(sep)\<close> for a separator of one character.\<close>

fun py_split :: "char \<Rightarrow> string \<Rightarrow> string list" where
  "py_split sep [] = [[]]"
| "py_split sep (c # cs) =
     (if c = sep then [] # py_split sep cs
      else (case py_split sep cs of [] \<Rightarrow> [[c]] | p # ps \<Rightarrow> (c # p) # ps))"

text \<open>
  \<^verbatim>\<open>_parse_octet\<close>: not empty, decimal digits only, at most three of them, no leading
  zero unless the octet is \<^verbatim>\<open>0\<close>, and at most 255. \<open>None\<close> stands for the ValueError
  that \<^verbatim>\<open>_ip_int_from_string\<close> turns into AddressValueError.
\<close>

definition parse_octet :: "string \<Rightarrow> int option" where
  "parse_octet s =
     (if s = [] then None
      else if \<not> list_all is_ascii_digit s then None
      else if length s > 3 then None
      else if s \<noteq> ''0'' \<and> hd s = CHR ''0'' then None
      else if digits_val s > 255 then None
      else Some (int (digits_val s)))"

definition ip_int_from_string :: "string \<Rightarrow> error + int" where
  "ip_int_from_string s =
     (if s = [] then Inl AddressValueError
      else
        (case map parse_octet (py_split CHR ''.'' s) of
           [Some a, Some b, Some c, Some d] \<Rightarrow> Inr (((a * 256 + b) * 256 + c) * 256 + d)
         | _ \<Rightarrow> Inl AddressValueError))"

text \<open>
  \<^verbatim>\<open>_prefix_from_prefix_string\<close>: ASCII digits that denote a number up to 32.
\<close>

definition prefix_from_prefix_string :: "string \<Rightarrow> nat option" where
  "prefix_from_prefix_string s =
     (if s = [] then None
      else if \<not> list_all is_ascii_digit s then None
      else if digits_val s > 32 then None
      else Some (digits_val s))"

text \<open>
  \<^verbatim>\<open>_count_righthand_zero_bits\<close>: \<open>bits\<close> for the number zero, otherwise the number
  of zero bits at the low end, at most \<open>bits\<close>. \<^verbatim>\<open>_prefix_from_ip_int\<close>: the prefix
  length of a number of the form ones followed by zeros, \<open>None\<close> (ValueError) for any
  other.
\<close>

fun zero_bits :: "nat \<Rightarrow> int \<Rightarrow> nat" where
  "zero_bits 0 number = 0"
| "zero_bits (Suc bits) number =
     (if odd number then 0 else Suc (zero_bits bits (number div 2)))"

definition count_righthand_zero_bits :: "int \<Rightarrow> nat \<Rightarrow> nat" where
  "count_righthand_zero_bits number bits = (if number = 0 then bits else zero_bits bits number)"

definition prefix_from_ip_int :: "int \<Rightarrow> nat option" where
  "prefix_from_ip_int ip_int =
     (let trailing_zeroes = count_righthand_zero_bits ip_int 32;
          prefixlen = 32 - trailing_zeroes;
          leading_ones = drop_bit trailing_zeroes ip_int;
          all_ones = 2 ^ prefixlen - 1
      in if leading_ones \<noteq> all_ones then None else Some prefixlen)"

text \<open>
  \<^verbatim>\<open>_prefix_from_ip_string\<close>: a dotted netmask, or else a dotted hostmask.
\<close>

definition prefix_from_ip_string :: "string \<Rightarrow> error + nat" where
  "prefix_from_ip_string s =
     (case ip_int_from_string s of
        Inl _ \<Rightarrow> Inl NetmaskValueError
      | Inr ip_int \<Rightarrow>
          (case prefix_from_ip_int ip_int of
             Some p \<Rightarrow> Inr p
           | None \<Rightarrow>
               (case prefix_from_ip_int (ip_int XOR ALL_ONES) of
                  Some p \<Rightarrow> Inr p
                | None \<Rightarrow> Inl NetmaskValueError)))"

text \<open>\<^verbatim>\<open>_make_netmask\<close> for the text after the slash: the prefix length.\<close>

definition make_netmask :: "string \<Rightarrow> error + nat" where
  "make_netmask s =
     (case prefix_from_prefix_string s of
        Some p \<Rightarrow> Inr p
      | None \<Rightarrow> prefix_from_ip_string s)"

text \<open>
  The constructor. An integer is an address with prefix length 32. Any other argument
  is converted with \<^verbatim>\<open>str\<close> and split at the slash: more than one slash raises
  AddressValueError; the part before it is parsed as an address; the part after it,
  when there is one, as a netmask (prefix length 32 when there is none); and a network
  address with a bit set outside the netmask raises ValueError.
\<close>

definition IPv4Network_of :: "string \<Rightarrow> nat \<Rightarrow> error + IPv4Network" where
  "IPv4Network_of addr p =
     bind (ip_int_from_string addr) (\<lambda>packed.
     if packed AND ip_int_from_prefix p \<noteq> packed
     then Inl (ValueError (str_address packed @ ''/'' @ str_nat p @ '' has host bits set''))
     else Inr \<lparr>network_address = packed, prefixlen = p\<rparr>)"

definition IPv4Network :: "pyval \<Rightarrow> error + IPv4Network" where
  "IPv4Network address =
     (case address of
        PInt i \<Rightarrow>
          if i < 0 \<or> i > ALL_ONES then Inl AddressValueError
          else Inr \<lparr>network_address = i, prefixlen = 32\<rparr>
      | _ \<Rightarrow>
          (case py_split CHR ''/'' (str address) of
             [addr] \<Rightarrow> IPv4Network_of addr 32
           | [addr, mask_text] \<Rightarrow>
               bind (ip_int_from_string addr) (\<lambda>_.
               bind (make_netmask mask_text) (\<lambda>p. IPv4Network_of addr p))
           | _ \<Rightarrow> Inl AddressValueError))"

subsection \<open>\<^verbatim>\<open>NetworkObject\<close>\<close>

text \<open>
  The members of \<^verbatim>\<open>NetworkObject.ObjectType\<close>. (\<^verbatim>\<open>ObjectType.RANGE\<close> is written
  \<open>ObjectType_RANGE\<close>: \<open>RANGE\<close> is the member of \<^verbatim>\<open>PortSelecterType\<close>.)
\<close>

datatype ObjectType = ObjectType_RANGE | HOST | NETWORK | FQDN

text \<open>
  What the attribute \<^verbatim>\<open>type\<close> can hold: \<^verbatim>\<open>None\<close> (or another false value), a member
  of \<^verbatim>\<open>ObjectType\<close>, or another true value, which is no valid type.
\<close>

datatype type_value = TypeNone | TypeOf ObjectType | TypeOther

text \<open>
  The instance attributes, each \<^verbatim>\<open>self.x\<close> written \<open>self_x\<close>. \<^verbatim>\<open>ip\<close>, \<^verbatim>\<open>end_ip\<close>
  and \<^verbatim>\<open>fqdn\<close> exist only once an initializer has assigned them: \<open>None\<close> is the
  missing attribute, and reading it raises AttributeError.
\<close>

record NetworkObject =
  self_description :: "string option"
  self_name :: "string option"
  self_type :: type_value
  self_ip :: "IPv4Network option"
  self_end_ip :: "IPv4Network option"
  self_fqdn :: "pyval option"

definition attr :: "'a option \<Rightarrow> error + 'a" where
  "attr a = (case a of None \<Rightarrow> Inl AttributeError | Some v \<Rightarrow> Inr v)"

text \<open>\<^verbatim>\<open>generate_name\<close>.\<close>

definition generate_name :: "NetworkObject \<Rightarrow> error + string \<times> NetworkObject" where
  "generate_name self =
     bind
       (case self_type self of
          TypeOf HOST \<Rightarrow>
            bind (attr (self_ip self)) (\<lambda>ip.
            Inr (''HOST_'' @ str_address (network_address ip)))
        | TypeOf NETWORK \<Rightarrow>
            bind (attr (self_ip self)) (\<lambda>ip.
            Inr (''NET_'' @ str_address (network_address ip) @ ''_'' @ str_nat (prefixlen ip)))
        | TypeOf ObjectType_RANGE \<Rightarrow>
            bind (attr (self_ip self)) (\<lambda>ip.
            bind (attr (self_end_ip self)) (\<lambda>end_ip.
            Inr (''RANGE_'' @ str_address (network_address ip) @ ''-''
                   @ str_address (network_address end_ip))))
        | TypeOf FQDN \<Rightarrow>
            bind (attr (self_fqdn self)) (\<lambda>fqdn.
            Inr (''FQDN_'' @ str fqdn))
        | _ \<Rightarrow> Inl (ValueError ''NetworkObject not set to type when generating name.''))
       (\<lambda>n. Inr (n, self\<lparr>self_name := Some n\<rparr>))"

text \<open>The statement \<^verbatim>\<open>if not self.name: self.generate_name()\<close>.\<close>

definition name_if_unset :: "NetworkObject \<Rightarrow> error + NetworkObject" where
  "name_if_unset self =
     (if \<not> truthy_str (self_name self) then bind (generate_name self) (\<lambda>(_, self). Inr self)
      else Inr self)"

text \<open>The three initializers.\<close>

definition init_fqdn_object :: "NetworkObject \<Rightarrow> pyval \<Rightarrow> error + NetworkObject" where
  "init_fqdn_object self fqdn =
     name_if_unset (self\<lparr>self_fqdn := Some fqdn, self_type := TypeOf FQDN\<rparr>)"

definition init_range_object :: "NetworkObject \<Rightarrow> pyval \<Rightarrow> pyval \<Rightarrow> error + NetworkObject" where
  "init_range_object self ip end_ip =
     bind (IPv4Network ip) (\<lambda>ip.
     bind (IPv4Network end_ip) (\<lambda>end_ip.
     name_if_unset
       (self\<lparr>self_ip := Some ip, self_end_ip := Some end_ip, self_type := TypeOf ObjectType_RANGE\<rparr>)))"

definition init_host_or_net_object ::
  "NetworkObject \<Rightarrow> pyval \<Rightarrow> pyval \<Rightarrow> pyval \<Rightarrow> error + NetworkObject" where
  "init_host_or_net_object self ip netmask_arg CIDR =
     bind
       (if truthy netmask_arg then IPv4Network (PStr (str ip @ ''/'' @ str netmask_arg))
        else if truthy CIDR then IPv4Network (PStr (str ip @ ''/'' @ str CIDR))
        else IPv4Network ip)
       (\<lambda>ip.
     (let self = self\<lparr>self_ip := Some ip\<rparr>;
          self = (if prefixlen ip = 32 then self\<lparr>self_type := TypeOf HOST\<rparr>
                  else self\<lparr>self_type := TypeOf NETWORK\<rparr>)
      in name_if_unset self))"

text \<open>\<^verbatim>\<open>__init__\<close>, with its eight keyword parameters.\<close>

record NetworkObject_args =
  arg_ob_type :: type_value
  arg_ip :: pyval
  arg_netmask :: pyval
  arg_description :: "string option"
  arg_CIDR :: pyval
  arg_object_name :: "string option"
  arg_fqdn :: pyval
  arg_end_ip :: pyval

definition NetworkObject_init :: "NetworkObject_args \<Rightarrow> error + NetworkObject" where
  "NetworkObject_init a =
     (let self =
            \<lparr>self_description = arg_description a, self_name = arg_object_name a,
             self_type = arg_ob_type a, self_ip = None, self_end_ip = None, self_fqdn = None\<rparr>
      in case self_type self of
           TypeNone \<Rightarrow> Inr self
         | TypeOf HOST \<Rightarrow> init_host_or_net_object self (arg_ip a) (arg_netmask a) (arg_CIDR a)
         | TypeOf NETWORK \<Rightarrow> init_host_or_net_object self (arg_ip a) (arg_netmask a) (arg_CIDR a)
         | TypeOf ObjectType_RANGE \<Rightarrow> init_range_object self (arg_ip a) (arg_end_ip a)
         | TypeOf FQDN \<Rightarrow> init_fqdn_object self (arg_fqdn a)
         | TypeOther \<Rightarrow> Inr self)"

text \<open>\<^verbatim>\<open>cli_definition\<close> and \<^verbatim>\<open>cli_attributes\<close>.\<close>

definition cli_definition :: "NetworkObject \<Rightarrow> error + string \<times> NetworkObject" where
  "cli_definition self =
     bind (name_if_unset self) (\<lambda>self.
     Inr (''object network '' @ (case self_name self of None \<Rightarrow> ''None'' | Some n \<Rightarrow> n), self))"

definition cli_attributes :: "NetworkObject \<Rightarrow> error + string" where
  "cli_attributes self =
     (case self_type self of
        TypeNone \<Rightarrow> Inl (ValueError ''No value set for object type.'')
      | TypeOf HOST \<Rightarrow>
          bind (attr (self_ip self)) (\<lambda>ip.
          Inr ('' host '' @ str_address (network_address ip)))
      | TypeOf NETWORK \<Rightarrow>
          bind (attr (self_ip self)) (\<lambda>ip.
          Inr ('' subnet '' @ str_address (network_address ip) @ '' '' @ str_address (netmask ip)))
      | TypeOf ObjectType_RANGE \<Rightarrow>
          bind (attr (self_ip self)) (\<lambda>ip.
          bind (attr (self_end_ip self)) (\<lambda>end_ip.
          Inr ('' range '' @ str_address (network_address ip) @ '' ''
                 @ str_address (network_address end_ip))))
      | TypeOf FQDN \<Rightarrow>
          bind (attr (self_fqdn self)) (\<lambda>fqdn.
          Inr ('' fqdn '' @ str fqdn))
      | TypeOther \<Rightarrow> Inl (ValueError ''Invalid value set for object type.''))"

text \<open>
  \<^verbatim>\<open>cli_full\<close>. The list starts as \<^verbatim>\<open>[self.cli_definition, self.cli_attributes]\<close>:
  the two attributes are read but not called, so the first two elements are the bound
  methods themselves. An element of the list is therefore a string or a bound method of
  the receiver.
\<close>

datatype NetworkObject_method = Method_cli_definition | Method_cli_attributes

datatype element = Text string | BoundMethod NetworkObject_method

definition cli_full :: "NetworkObject \<Rightarrow> element list" where
  "cli_full self =
     (let rule_text = [BoundMethod Method_cli_definition, BoundMethod Method_cli_attributes];
          rule_text =
            (case self_description self of
               None \<Rightarrow> rule_text
             | Some d \<Rightarrow> if d \<noteq> [] then rule_text @ [Text ('' description '' @ d)] else rule_text)
      in rule_text @ [Text ''!''])"

section \<open>Properties of the port properties and of \<^verbatim>\<open>_TcpOrUdpObject\<close>\<close>

lemma bind_Inr_iff: "bind r f = Inr y \<longleftrightarrow> (\<exists>x. r = Inr x \<and> f x = Inr y)"
  by (cases r) (simp_all add: bind_def)

lemma bind_Inl_iff: "bind r f = Inl e \<longleftrightarrow> r = Inl e \<or> (\<exists>x. r = Inr x \<and> f x = Inl e)"
  by (cases r) (simp_all add: bind_def)

lemma bind_Inr: "bind (Inr x) f = f x"
  by (simp add: bind_def)

lemma bind_Inl: "bind (Inl e) f = Inl e"
  by (simp add: bind_def)

text \<open>What reading each of the four port attributes returns.\<close>

lemma getattr_source_port: "getattr source_port self = u_source_port self"
  by (simp add: getattr_def source_port_def setter_def property_def)

lemma getattr_source_end_port: "getattr source_end_port self = u_source_end_port self"
  by (simp add: getattr_def source_end_port_def setter_def property_def)

lemma getattr_dest_port: "getattr dest_port self = u_dest_port self"
  by (simp add: getattr_def dest_port_def setter_def property_def)

lemma getattr_dest_end_port: "getattr dest_end_port self = u_dest_port self"
  by (simp add: getattr_def dest_end_port_def dest_port_def setter_def property_def)

text \<open>What assigning each of them does.\<close>

lemma setattr_source_port:
  "setattr source_port self p = bind (u_check_port p) (\<lambda>_. Inr (self\<lparr>u_source_port := p\<rparr>))"
  by (simp add: setattr_def source_port_def setter_def property_def)

lemma setattr_source_end_port:
  "setattr source_end_port self p = bind (u_check_port p) (\<lambda>_. Inr (self\<lparr>u_source_end_port := p\<rparr>))"
  by (simp add: setattr_def source_end_port_def setter_def property_def)

lemma setattr_dest_port:
  "setattr dest_port self p = bind (u_check_port p) (\<lambda>_. Inr (self\<lparr>u_dest_port := p\<rparr>))"
  by (simp add: setattr_def dest_port_def setter_def property_def)

lemma setattr_dest_end_port:
  "setattr dest_end_port self p = bind (u_check_port p) (\<lambda>_. Inr (self\<lparr>u_dest_end_port := p\<rparr>))"
  by (simp add: setattr_def dest_end_port_def dest_port_def setter_def property_def)

lemmas getattr_port = getattr_source_port getattr_source_end_port getattr_dest_port
  getattr_dest_end_port

lemmas setattr_port = setattr_source_port setattr_source_end_port setattr_dest_port
  setattr_dest_end_port

lemma setattr_dest_port_Inr:
  "setattr dest_port self p = Inr s \<Longrightarrow> s = self\<lparr>u_dest_port := p\<rparr>"
  by (auto simp: setattr_dest_port bind_Inr_iff)

lemma setattr_dest_end_port_Inr:
  "setattr dest_end_port self p = Inr s \<Longrightarrow> s = self\<lparr>u_dest_end_port := p\<rparr>"
  by (auto simp: setattr_dest_end_port bind_Inr_iff)

text \<open>Upper case: of the constants the module upper-cases, and in general.\<close>

lemma upper_OBJECT_TYPE:
  "upper (OBJECT_TYPE c) = Inr (case c of TcpObject \<Rightarrow> ''TCP'' | UdpObject \<Rightarrow> ''UDP'')"
proof -
  have "upper ''tcp'' = Inr ''TCP''" and "upper ''udp'' = Inr ''UDP''"
    by code_simp+
  then show ?thesis by (cases c) simp_all
qed

lemma upper_selecter_value:
  "upper (selecter_value t) =
     Inr (case t of SINGLE \<Rightarrow> ''EQ'' | RANGE \<Rightarrow> ''RANGE'' | LESS_THAN \<Rightarrow> ''LT''
          | GREATER_THAN \<Rightarrow> ''GT'' | NOT_EQUALS \<Rightarrow> ''NEQ'')"
proof -
  have "upper ''eq'' = Inr ''EQ''" and "upper ''range'' = Inr ''RANGE''"
    and "upper ''lt'' = Inr ''LT''" and "upper ''gt'' = Inr ''GT''"
    and "upper ''neq'' = Inr ''NEQ''"
    by code_simp+
  then show ?thesis by (cases t) simp_all
qed

lemma upper_char_nonempty:
  assumes "upper_char c = Some u"
  shows "u \<noteq> []"
  using assms by (auto simp: upper_char_def Let_def split: if_splits)

lemma upper_nonempty:
  assumes "upper s = Inr u" and "s \<noteq> []"
  shows "u \<noteq> []"
proof (cases s)
  case Nil
  with assms(2) show ?thesis by simp
next
  case (Cons c cs)
  with assms(1) obtain v r where "upper_char c = Some v" and "u = v @ r"
    by (auto simp: bind_def split: option.splits sum.splits)
  with upper_char_nonempty show ?thesis by simp
qed

text \<open>
  \<^verbatim>\<open>_TcpOrUdpObject.generate_name\<close> always returns: the strings it upper-cases are
  ASCII constants.
\<close>

lemma TcpOrUdp_generate_name_eq:
  "TcpOrUdp_generate_name self =
     (let name = ''SVC_'' @ (case cls self of TcpObject \<Rightarrow> ''TCP'' | UdpObject \<Rightarrow> ''UDP'');
          name =
            (case source_port_selecter_type self of
               None \<Rightarrow> name
             | Some t \<Rightarrow>
                 if t = RANGE then
                   name @ ''_SRC_RANGE_'' @ str_opt_int (u_source_port self) @ ''-''
                     @ str_opt_int (u_source_end_port self)
                 else
                   name @ ''_SRC_''
                     @ (case t of SINGLE \<Rightarrow> ''EQ'' | RANGE \<Rightarrow> ''RANGE'' | LESS_THAN \<Rightarrow> ''LT''
                        | GREATER_THAN \<Rightarrow> ''GT'' | NOT_EQUALS \<Rightarrow> ''NEQ'')
                     @ ''_'' @ str_opt_int (u_source_port self));
          name =
            (case dest_port_selecter_type self of
               None \<Rightarrow> name
             | Some t \<Rightarrow>
                 if t = RANGE then
                   name @ ''_DEST_RANGE_'' @ str_opt_int (u_dest_port self) @ ''-''
                     @ str_opt_int (u_dest_port self)
                 else
                   name @ ''_DEST_''
                     @ (case t of SINGLE \<Rightarrow> ''EQ'' | RANGE \<Rightarrow> ''RANGE'' | LESS_THAN \<Rightarrow> ''LT''
                        | GREATER_THAN \<Rightarrow> ''GT'' | NOT_EQUALS \<Rightarrow> ''NEQ'')
                     @ ''_'' @ str_opt_int (u_dest_port self))
      in Inr (name, self\<lparr>u_name := Some name\<rparr>))"
  by (simp add: TcpOrUdp_generate_name_def upper_OBJECT_TYPE upper_selecter_value bind_Inr
      getattr_port Let_def split: option.splits)

text \<open>
  C9. In \<^verbatim>\<open>_TcpOrUdpObject.cli_attributes\<close>, whenever the line is produced and a
  destination selector is set, the line is \<^verbatim>\<open>service <tcp|udp>\<close>, the source clause,
  and the destination clause; for the RANGE selector the destination clause begins
  with the token \<^verbatim>\<open>source\<close>, for every other selector with \<^verbatim>\<open>destination\<close>.
\<close>

theorem dest_range_clause_begins_with_source:
  assumes "TcpOrUdp_cli_attributes self = Inr line"
    and "dest_port_selecter_type self = Some t"
  shows "\<exists>source. cli_attributes_source self = Inr source \<and>
           line = ''service '' @ OBJECT_TYPE (cls self) @ source @
             (if t = RANGE
              then '' source range '' @ str_opt_int (getattr dest_port self) @ '' ''
                     @ str_opt_int (getattr dest_end_port self)
              else '' destination '' @ selecter_value t @ '' ''
                     @ str_opt_int (getattr dest_port self))"
proof -
  from assms(1) obtain source dest where
    s: "cli_attributes_source self = Inr source" and
    d: "cli_attributes_dest self = Inr dest" and
    l: "line = ''service '' @ OBJECT_TYPE (cls self) @ source @ dest"
    by (auto simp: TcpOrUdp_cli_attributes_def bind_Inr_iff)
  from d assms(2) have
    "dest = (if t = RANGE
              then '' source range '' @ str_opt_int (getattr dest_port self) @ '' ''
                     @ str_opt_int (getattr dest_end_port self)
              else '' destination '' @ selecter_value t @ '' ''
                     @ str_opt_int (getattr dest_port self))"
    by (auto simp: cli_attributes_dest_def split: if_splits)
  with s l show ?thesis by simp
qed

theorem dest_range_clause_begins_with_source_witness:
  "TcpOrUdp_cli_attributes
     ((blank TcpObject)\<lparr>dest_port_selecter_type := Some RANGE, u_dest_port := Some 1024,
        u_dest_end_port := Some 2048\<rparr>) = Inr ''service tcp source range 1024 1024''
   \<and> TcpOrUdp_cli_attributes
     ((blank UdpObject)\<lparr>dest_port_selecter_type := Some LESS_THAN, u_dest_port := Some 1024\<rparr>)
       = Inr ''service udp destination lt 1024''"
proof -
  let ?a = "(blank TcpObject)\<lparr>dest_port_selecter_type := Some RANGE, u_dest_port := Some 1024,
        u_dest_end_port := Some 2048\<rparr>"
  let ?b = "(blank UdpObject)\<lparr>dest_port_selecter_type := Some LESS_THAN, u_dest_port := Some 1024\<rparr>"
  have a1: "TcpOrUdp_cli_attributes ?a = Inr ''service tcp source range 1024 1024''"
    by code_simp
  have a2: "dest_port_selecter_type ?a = Some RANGE"
    by (simp add: blank_def)
  have b1: "TcpOrUdp_cli_attributes ?b = Inr ''service udp destination lt 1024''"
    by code_simp
  have b2: "dest_port_selecter_type ?b = Some LESS_THAN"
    by (simp add: blank_def)
  from dest_range_clause_begins_with_source [OF a1 a2]
       dest_range_clause_begins_with_source [OF b1 b2] a1 b1
  show ?thesis by simp
qed

text \<open>The name a destination RANGE selector contributes, and the line it renders.\<close>

lemma generate_name_dest_range:
  assumes "dest_port_selecter_type self = Some RANGE"
  shows "\<exists>prefix. TcpOrUdp_generate_name self =
           Inr (prefix @ ''_DEST_RANGE_'' @ str_opt_int (u_dest_port self) @ ''-''
                  @ str_opt_int (u_dest_port self),
                self\<lparr>u_name := Some (prefix @ ''_DEST_RANGE_'' @ str_opt_int (u_dest_port self)
                  @ ''-'' @ str_opt_int (u_dest_port self))\<rparr>)"
proof -
  define prefix where "prefix =
    (''SVC_'' @ (case cls self of TcpObject \<Rightarrow> ''TCP'' | UdpObject \<Rightarrow> ''UDP'')) @
      (case source_port_selecter_type self of
         None \<Rightarrow> []
       | Some t \<Rightarrow>
           if t = RANGE then
             ''_SRC_RANGE_'' @ str_opt_int (u_source_port self) @ ''-''
               @ str_opt_int (u_source_end_port self)
           else ''_SRC_''
             @ (case t of SINGLE \<Rightarrow> ''EQ'' | RANGE \<Rightarrow> ''RANGE'' | LESS_THAN \<Rightarrow> ''LT''
                | GREATER_THAN \<Rightarrow> ''GT'' | NOT_EQUALS \<Rightarrow> ''NEQ'')
             @ ''_'' @ str_opt_int (u_source_port self))"
  have "TcpOrUdp_generate_name self =
           Inr (prefix @ ''_DEST_RANGE_'' @ str_opt_int (u_dest_port self) @ ''-''
                  @ str_opt_int (u_dest_port self),
                self\<lparr>u_name := Some (prefix @ ''_DEST_RANGE_'' @ str_opt_int (u_dest_port self)
                  @ ''-'' @ str_opt_int (u_dest_port self))\<rparr>)"
    using assms
    by (simp add: TcpOrUdp_generate_name_eq prefix_def Let_def split: option.splits)
  then show ?thesis by blast
qed

lemma cli_attributes_dest_range:
  assumes "dest_port_selecter_type self = Some RANGE"
    and "TcpOrUdp_cli_attributes self = Inr line"
  shows "\<exists>prefix. line = prefix @ '' source range '' @ str_opt_int (u_dest_port self) @ '' ''
           @ str_opt_int (u_dest_port self)"
proof -
  from assms(2) obtain source dest where
    d: "cli_attributes_dest self = Inr dest" and
    l: "line = (''service '' @ OBJECT_TYPE (cls self) @ source) @ dest"
    by (auto simp: TcpOrUdp_cli_attributes_def bind_Inr_iff)
  from d assms(1) have
    "dest = '' source range '' @ str_opt_int (u_dest_port self) @ '' ''
              @ str_opt_int (u_dest_port self)"
    by (auto simp: cli_attributes_dest_def getattr_port split: if_splits)
  with l show ?thesis by blast
qed

text \<open>
  C10. After \<^verbatim>\<open>obj.dest_port = w\<close> and \<^verbatim>\<open>obj.dest_end_port = v\<close> have both succeeded,
  reading \<^verbatim>\<open>obj.dest_end_port\<close> returns \<open>w\<close> (so it is not \<open>v\<close> unless the two are
  equal). With a destination RANGE selector the generated name therefore ends in
  \<^verbatim>\<open>_DEST_RANGE_<w>-<w>\<close>, and a rendered attribute line ends in the RANGE clause with
  \<open>w\<close> in both positions.
\<close>

theorem dest_end_port_reads_dest_port:
  assumes "setattr dest_port self w = Inr s1"
    and "setattr dest_end_port s1 v = Inr s2"
  shows "getattr dest_end_port s2 = w
    \<and> (v \<noteq> w \<longrightarrow> getattr dest_end_port s2 \<noteq> v)
    \<and> (dest_port_selecter_type s2 = Some RANGE \<longrightarrow>
         (\<exists>prefix s3. TcpOrUdp_generate_name s2 =
            Inr (prefix @ ''_DEST_RANGE_'' @ str_opt_int w @ ''-'' @ str_opt_int w, s3)))
    \<and> (dest_port_selecter_type s2 = Some RANGE \<longrightarrow>
         (\<forall>line. TcpOrUdp_cli_attributes s2 = Inr line \<longrightarrow>
            (\<exists>prefix. line = prefix @ '' source range '' @ str_opt_int w @ '' '' @ str_opt_int w)))"
proof -
  have s2: "s2 = self\<lparr>u_dest_port := w, u_dest_end_port := v\<rparr>"
    using setattr_dest_port_Inr [OF assms(1)] setattr_dest_end_port_Inr [OF assms(2)] by simp
  then have w: "u_dest_port s2 = w" by simp
  have r: "getattr dest_end_port s2 = w"
    by (simp add: getattr_dest_end_port w)
  have n: "\<exists>prefix s3. TcpOrUdp_generate_name s2 =
            Inr (prefix @ ''_DEST_RANGE_'' @ str_opt_int w @ ''-'' @ str_opt_int w, s3)"
    if "dest_port_selecter_type s2 = Some RANGE"
    using generate_name_dest_range [OF that] unfolding w by blast
  have c: "\<exists>prefix. line = prefix @ '' source range '' @ str_opt_int w @ '' '' @ str_opt_int w"
    if "dest_port_selecter_type s2 = Some RANGE" "TcpOrUdp_cli_attributes s2 = Inr line" for line
    using cli_attributes_dest_range [OF that] unfolding w .
  from r n c show ?thesis by blast
qed

theorem dest_end_port_reads_dest_port_witness:
  "(\<exists>s1 s2.
      setattr dest_port ((blank TcpObject)\<lparr>dest_port_selecter_type := Some RANGE\<rparr>) (Some 1024)
        = Inr s1
    \<and> setattr dest_end_port s1 (Some 2048) = Inr s2
    \<and> u_dest_end_port s2 = Some 2048
    \<and> getattr dest_end_port s2 = Some 1024
    \<and> getattr dest_end_port s2 \<noteq> Some 2048
    \<and> dest_port_selecter_type s2 = Some RANGE
    \<and> map_sum id fst (TcpOrUdp_generate_name s2) = Inr ''SVC_TCP_DEST_RANGE_1024-1024''
    \<and> TcpOrUdp_cli_attributes s2 = Inr ''service tcp source range 1024 1024'')"
proof -
  let ?s0 = "(blank TcpObject)\<lparr>dest_port_selecter_type := Some RANGE\<rparr>"
  let ?s1 = "(blank TcpObject)\<lparr>dest_port_selecter_type := Some RANGE, u_dest_port := Some 1024\<rparr>"
  let ?s2 = "(blank TcpObject)\<lparr>dest_port_selecter_type := Some RANGE, u_dest_port := Some 1024,
               u_dest_end_port := Some 2048\<rparr>"
  have h1: "setattr dest_port ?s0 (Some 1024) = Inr ?s1"
    by code_simp
  have h2: "setattr dest_end_port ?s1 (Some 2048) = Inr ?s2"
    by code_simp
  have e: "u_dest_end_port ?s2 = Some 2048" "dest_port_selecter_type ?s2 = Some RANGE"
    by (simp_all add: blank_def)
  have n: "map_sum id fst (TcpOrUdp_generate_name ?s2) = Inr ''SVC_TCP_DEST_RANGE_1024-1024''"
    by code_simp
  have c: "TcpOrUdp_cli_attributes ?s2 = Inr ''service tcp source range 1024 1024''"
    by code_simp
  from dest_end_port_reads_dest_port [OF h1 h2]
  have "getattr dest_end_port ?s2 = Some 1024" "getattr dest_end_port ?s2 \<noteq> Some 2048"
    by simp_all
  with h1 h2 e n c show ?thesis by blast
qed

text \<open>
  C2. \<^verbatim>\<open>TcpObject(dest_port_selecter_type=PortSelecterType.RANGE, dest_port=80)\<close> sets a
  destination RANGE selector and leaves \<^verbatim>\<open>dest_end_port\<close> unset. Construction
  succeeds, the stored \<^verbatim>\<open>_dest_end_port\<close> is \<^verbatim>\<open>None\<close>, and \<^verbatim>\<open>cli_attributes()\<close>
  returns a line instead of failing: the assertion reads \<^verbatim>\<open>dest_end_port\<close> through
  the property, which returns \<^verbatim>\<open>_dest_port\<close>.
\<close>

theorem dest_range_without_end_port_renders:
  "bind
     (construct TcpObject [''dest_port_selecter_type'', ''dest_port'']
        (no_args\<lparr>arg_dest_port_selecter_type := Some RANGE, arg_dest_port := Some 80\<rparr>))
     (\<lambda>self. Inr (u_dest_end_port self, TcpOrUdp_cli_attributes self))
   = Inr (None, Inr ''service tcp source range 80 80'')"
  by code_simp

text \<open>
  The source side of the same call does fail: with \<^verbatim>\<open>source_end_port\<close> unset the
  assertion of the source RANGE branch raises.
\<close>

lemma source_range_without_end_port_fails:
  "bind
     (construct TcpObject [''source_port_selecter_type'', ''source_port'']
        (no_args\<lparr>arg_source_port_selecter_type := Some RANGE, arg_source_port := Some 80\<rparr>))
     TcpOrUdp_cli_attributes
   = Inl (AssertionError ''Range starting or ending port not defined'')"
  by code_simp

text \<open>
  Where a port that a set selector reads is \<^verbatim>\<open>None\<close>, the line is not rendered: the
  source assertions raise, and so do the destination ones when \<^verbatim>\<open>dest_port\<close> is
  \<^verbatim>\<open>None\<close>. Only the destination RANGE selector with \<^verbatim>\<open>dest_port\<close> set and
  \<^verbatim>\<open>dest_end_port\<close> unset escapes.
\<close>

lemma missing_source_range_port_raises:
  assumes "source_port_selecter_type self = Some RANGE"
    and "u_source_port self = None \<or> u_source_end_port self = None"
  shows "TcpOrUdp_cli_attributes self
    = Inl (AssertionError ''Range starting or ending port not defined'')"
  using assms
  by (auto simp: TcpOrUdp_cli_attributes_def cli_attributes_source_def getattr_port
      truthy_int_def bind_def)

lemma missing_source_port_raises:
  assumes "source_port_selecter_type self = Some t" and "t \<noteq> RANGE"
    and "u_source_port self = None"
  shows "TcpOrUdp_cli_attributes self = Inl (AssertionError ''Source port not defined'')"
  using assms
  by (simp add: TcpOrUdp_cli_attributes_def cli_attributes_source_def getattr_port
      truthy_int_def bind_def)

lemma missing_dest_port_raises:
  assumes "dest_port_selecter_type self = Some t" and "u_dest_port self = None"
  shows "\<exists>e. TcpOrUdp_cli_attributes self = Inl e"
proof (cases "cli_attributes_source self")
  case (Inl e)
  then show ?thesis by (simp add: TcpOrUdp_cli_attributes_def bind_def)
next
  case (Inr source)
  with assms show ?thesis
    by (simp add: TcpOrUdp_cli_attributes_def cli_attributes_dest_def getattr_port
        truthy_int_def bind_def)
qed

text \<open>
  C6. \<^verbatim>\<open>TcpObject(dest_port_selecter_type=PortSelecterType.SINGLE, dest_port=443)\<close>:
  \<^verbatim>\<open>cli_attributes()\<close> succeeds and the line it returns begins with \<^verbatim>\<open>s\<close>, not with
  a space.
\<close>

theorem tcp_cli_attributes_has_no_leading_space:
  "bind
     (construct TcpObject [''dest_port_selecter_type'', ''dest_port'']
        (no_args\<lparr>arg_dest_port_selecter_type := Some SINGLE, arg_dest_port := Some 443\<rparr>))
     TcpOrUdp_cli_attributes
   = Inr ''service tcp destination eq 443''
   \<and> hd ''service tcp destination eq 443'' \<noteq> CHR '' ''"
proof -
  have "bind
     (construct TcpObject [''dest_port_selecter_type'', ''dest_port'']
        (no_args\<lparr>arg_dest_port_selecter_type := Some SINGLE, arg_dest_port := Some 443\<rparr>))
     TcpOrUdp_cli_attributes
   = Inr ''service tcp destination eq 443''"
    by code_simp
  then show ?thesis by simp
qed

text \<open>The lines of the three variants: only the TCP/UDP one lacks the leading space.\<close>

lemma TcpOrUdp_cli_attributes_begins_with_service:
  assumes "TcpOrUdp_cli_attributes self = Inr line"
  shows "\<exists>rest. line = ''service '' @ OBJECT_TYPE (cls self) @ rest"
  using assms by (auto simp: TcpOrUdp_cli_attributes_def bind_Inr_iff)

lemma Icmp_cli_attributes_begins_with_space:
  assumes "Icmp_cli_attributes self = Inr line"
  shows "\<exists>rest. line = '' service icmp '' @ rest"
  using assms by (auto simp: Icmp_cli_attributes_def bind_Inr_iff Let_def)

lemma cli_attributes_begins_with_space:
  assumes "cli_attributes self = Inr line"
  shows "\<exists>rest. line = CHR '' '' # rest"
  using assms
  by (auto simp: cli_attributes_def bind_Inr_iff split: type_value.splits ObjectType.splits)

text \<open>Construction keeps the class, and the inherited \<^verbatim>\<open>cli_full\<close> has three lines.\<close>

lemma TcpOrUdp_init_cls:
  assumes "TcpOrUdp_init self a = Inr s"
  shows "cls s = cls self"
  using assms
  by (auto simp: TcpOrUdp_init_def Let_def setattr_port bind_Inr_iff name_setter_def)

lemma construct_cls:
  assumes "construct c keywords a = Inr self"
  shows "cls self = c"
  using assms TcpOrUdp_init_cls [of "blank c" a self]
  by (auto simp: construct_def blank_def split: if_splits)

lemma ServiceObject_cli_full_lines:
  assumes "ServiceObject_cli_full gen attrs self = Inr (lines, s)"
  shows "\<exists>n a. lines = [''object service '' @ n, a, ''!''] \<and> attrs s = Inr a"
  using assms
  by (auto simp: ServiceObject_cli_full_def ServiceObject_cli_definition_def bind_Inr_iff
      split: if_splits)

lemma TcpOrUdp_generate_name_fields:
  assumes "TcpOrUdp_generate_name self = Inr (n, s)"
  shows "s = self\<lparr>u_name := Some n\<rparr>"
  using assms by (auto simp: TcpOrUdp_generate_name_eq Let_def)

text \<open>
  Whatever \<^verbatim>\<open>generate_name\<close> leaves unchanged, the \<^verbatim>\<open>name\<close> getter,
  \<^verbatim>\<open>cli_definition\<close> and \<^verbatim>\<open>cli_full\<close> leave unchanged.
\<close>

lemma bind_InrE:
  assumes "bind r f = Inr y"
  obtains x where "r = Inr x" and "f x = Inr y"
  using assms by (cases r) (simp_all add: bind_def)

lemma name_getter_keeps:
  assumes gen: "\<And>self n s. gen self = Inr (n, s) \<Longrightarrow> f s = f self"
    and "name_getter gen self = Inr (n, s)"
  shows "f s = f self"
proof (cases "truthy_str (u_name self)")
  case True
  with assms(2) have "s = self"
    by (cases "u_name self") (simp_all add: name_getter_def truthy_str_def)
  then show ?thesis by simp
next
  case False
  with assms(2) have "gen self = Inr (n, s)"
    by (cases "u_name self") (simp_all add: name_getter_def truthy_str_def)
  then show ?thesis by (rule gen)
qed

lemma ServiceObject_cli_definition_keeps:
  assumes gen: "\<And>self n s. gen self = Inr (n, s) \<Longrightarrow> f s = f self"
    and "ServiceObject_cli_definition gen self = Inr (d, s)"
  shows "f s = f self"
proof -
  from assms(2) obtain x1 where
    1: "name_getter gen self = Inr x1" and
    r1: "(case x1 of (n, self) \<Rightarrow>
            bind (if n = [] then bind (gen self) (\<lambda>(_, self). Inr self) else Inr self) (\<lambda>self.
            bind (name_getter gen self) (\<lambda>(n, self).
            Inr (''object service '' @ n, self)))) = Inr (d, s)"
    unfolding ServiceObject_cli_definition_def by (rule bind_InrE) auto
  obtain n1 s1 where x1: "x1 = (n1, s1)" by (cases x1)
  from r1 [unfolded x1 prod.case] obtain s2 where
    2: "(if n1 = [] then bind (gen s1) (\<lambda>(_, self). Inr self) else Inr s1) = Inr s2" and
    r2: "bind (name_getter gen s2) (\<lambda>(n, self). Inr (''object service '' @ n, self)) = Inr (d, s)"
    by (rule bind_InrE) auto
  from r2 obtain x3 where
    3: "name_getter gen s2 = Inr x3" and
    r3: "(case x3 of (n, self) \<Rightarrow> Inr (''object service '' @ n, self)) = Inr (d, s)"
    by (rule bind_InrE) auto
  obtain n3 s3 where x3: "x3 = (n3, s3)" by (cases x3)
  from r3 [unfolded x3 prod.case] have s3: "s3 = s" by simp
  have a: "f s1 = f self"
    using gen 1 [unfolded x1] by (rule name_getter_keeps)
  have b: "f s2 = f s1"
  proof (cases "n1 = []")
    case True
    with 2 have "bind (gen s1) (\<lambda>(_, self). Inr self) = Inr s2" by simp
    then obtain x where g: "gen s1 = Inr x" and e: "(case x of (_, self) \<Rightarrow> Inr self) = Inr s2"
      by (rule bind_InrE) auto
    obtain n2 s2' where x: "x = (n2, s2')" by (cases x)
    from e [unfolded x prod.case] have "s2' = s2" by simp
    with g x have "gen s1 = Inr (n2, s2)" by simp
    then show ?thesis by (rule gen)
  next
    case False
    with 2 show ?thesis by simp
  qed
  have c: "f s = f s2"
    using gen 3 [unfolded x3 s3] by (rule name_getter_keeps)
  from a b c show ?thesis by simp
qed

lemma ServiceObject_cli_full_keeps:
  assumes gen: "\<And>self n s. gen self = Inr (n, s) \<Longrightarrow> f s = f self"
    and "ServiceObject_cli_full gen attrs self = Inr (lines, s)"
  shows "f s = f self"
proof -
  from assms(2) obtain x where
    1: "ServiceObject_cli_definition gen self = Inr x" and
    r: "(case x of (d, self) \<Rightarrow> bind (attrs self) (\<lambda>a. Inr ([d, a, ''!''], self))) = Inr (lines, s)"
    unfolding ServiceObject_cli_full_def by (rule bind_InrE) auto
  obtain d s1 where x: "x = (d, s1)" by (cases x)
  from r [unfolded x prod.case] obtain a where "Inr ([d, a, ''!''], s1) = Inr (lines, s)"
    by (rule bind_InrE) auto
  then have "s1 = s" by simp
  with 1 x have "ServiceObject_cli_definition gen self = Inr (d, s)" by simp
  with gen show ?thesis by (rule ServiceObject_cli_definition_keeps)
qed

lemma TcpOrUdp_generate_name_cls:
  assumes "TcpOrUdp_generate_name self = Inr (n, s)"
  shows "cls s = cls self"
  using TcpOrUdp_generate_name_fields [OF assms] by simp

lemma TcpOrUdp_cli_full_cls:
  assumes "TcpOrUdp_cli_full self = Inr (lines, s)"
  shows "cls s = cls self"
  using TcpOrUdp_generate_name_cls assms [unfolded TcpOrUdp_cli_full_def]
  by (rule ServiceObject_cli_full_keeps)

text \<open>
  C4, as amended. A call of \<^verbatim>\<open>TcpObject\<close> or \<^verbatim>\<open>UdpObject\<close> with a keyword that is not
  one of the seven parameters of \<^verbatim>\<open>__init__\<close> raises TypeError at construction, so no
  object is created from it. Every \<^verbatim>\<open>TcpObject\<close> that construction returns renders by
  the TCP template: when \<^verbatim>\<open>cli_full()\<close> succeeds its result is the definition line
  \<^verbatim>\<open>object service <name>\<close>, an attribute line that begins with \<^verbatim>\<open>service tcp\<close>, and
  \<^verbatim>\<open>!\<close>.
\<close>

theorem foreign_keyword_raises_and_tcp_renders_tcp:
  "(\<not> list_all (\<lambda>k. k \<in> set init_parameters) keywords \<longrightarrow>
      construct c keywords a = Inl TypeError)
   \<and> (\<forall>self lines s.
        construct TcpObject keywords a = Inr self \<longrightarrow>
        TcpOrUdp_cli_full self = Inr (lines, s) \<longrightarrow>
        (\<exists>n rest. lines = [''object service '' @ n, ''service tcp'' @ rest, ''!'']))"
proof -
  have 1: "construct c keywords a = Inl TypeError"
    if "\<not> list_all (\<lambda>k. k \<in> set init_parameters) keywords"
    using that by (simp add: construct_def)
  have 2: "\<exists>n rest. lines = [''object service '' @ n, ''service tcp'' @ rest, ''!'']"
    if c: "construct TcpObject keywords a = Inr self"
      and f: "TcpOrUdp_cli_full self = Inr (lines, s)" for self lines s
  proof -
    from f obtain n l where
      l: "lines = [''object service '' @ n, l, ''!'']" and
      at: "TcpOrUdp_cli_attributes s = Inr l"
      using ServiceObject_cli_full_lines [of TcpOrUdp_generate_name TcpOrUdp_cli_attributes self lines s]
      by (auto simp: TcpOrUdp_cli_full_def)
    from f have "cls s = cls self"
      using TcpOrUdp_cli_full_cls by blast
    with construct_cls [OF c] have "cls s = TcpObject" by simp
    with TcpOrUdp_cli_attributes_begins_with_service [OF at]
    obtain rest where "l = ''service tcp'' @ '' '' @ rest \<or> l = ''service tcp'' @ rest"
      by auto
    with l show ?thesis by blast
  qed
  from 1 2 show ?thesis by blast
qed

theorem foreign_keyword_raises_and_tcp_renders_tcp_witness:
  "\<not> list_all (\<lambda>k. k \<in> set init_parameters) [''name'', ''icmp_type'', ''icmp_code'']
   \<and> construct TcpObject [''name'', ''icmp_type'', ''icmp_code'']
       (no_args\<lparr>arg_name := Some ''Stu''\<rparr>) = Inl TypeError
   \<and> (\<exists>self s.
        construct TcpObject [''dest_port_selecter_type'', ''dest_port'']
          (no_args\<lparr>arg_dest_port_selecter_type := Some SINGLE, arg_dest_port := Some 443\<rparr>)
          = Inr self
      \<and> TcpOrUdp_cli_full self =
          Inr ([''object service SVC_TCP_DEST_EQ_443'', ''service tcp destination eq 443'', ''!''], s))"
proof -
  let ?self = "(blank TcpObject)\<lparr>dest_port_selecter_type := Some SINGLE, u_dest_port := Some 443\<rparr>"
  have h: "\<not> list_all (\<lambda>k. k \<in> set init_parameters) [''name'', ''icmp_type'', ''icmp_code'']"
    by code_simp
  from foreign_keyword_raises_and_tcp_renders_tcp
    [of "[''name'', ''icmp_type'', ''icmp_code'']" TcpObject "no_args\<lparr>arg_name := Some ''Stu''\<rparr>"] h
  have e: "construct TcpObject [''name'', ''icmp_type'', ''icmp_code'']
       (no_args\<lparr>arg_name := Some ''Stu''\<rparr>) = Inl TypeError"
    by blast
  have c: "construct TcpObject [''dest_port_selecter_type'', ''dest_port'']
          (no_args\<lparr>arg_dest_port_selecter_type := Some SINGLE, arg_dest_port := Some 443\<rparr>)
          = Inr ?self"
    by code_simp
  have f: "TcpOrUdp_cli_full ?self =
     Inr ([''object service SVC_TCP_DEST_EQ_443'', ''service tcp destination eq 443'', ''!''],
          ?self\<lparr>u_name := Some ''SVC_TCP_DEST_EQ_443''\<rparr>)"
    by code_simp
  from h e c f show ?thesis by blast
qed

text \<open>
  C4, as stated, fails: the call \<^verbatim>\<open>TcpObject(icmp_type='echo', icmp_code=40)\<close> raises
  at construction.
\<close>

theorem foreign_keywords_raise_at_construction:
  "construct TcpObject [''icmp_type'', ''icmp_code''] no_args = Inl TypeError"
  by code_simp

section \<open>Properties of \<^verbatim>\<open>IcmpObject\<close>\<close>

text \<open>
  C3. \<^verbatim>\<open>IcmpObject(icmp_type='echo')\<close> is constructed with a valid type and the code
  left at \<^verbatim>\<open>None\<close>; \<^verbatim>\<open>cli_attributes()\<close> then raises TypeError instead of
  returning \<^verbatim>\<open>' service icmp echo'\<close>, because it passes the unset code to
  \<^verbatim>\<open>_verify_icmp_code\<close>, which applies \<^verbatim>\<open>int\<close> to it.
\<close>

theorem icmp_cli_attributes_raises_without_code:
  "IcmpObject_init None (PStr ''echo'') None =
     Inr \<lparr>u_name = None, u_icmp_code = None, u_icmp_type = PStr ''echo''\<rparr>
   \<and> Icmp_cli_attributes \<lparr>u_name = None, u_icmp_code = None, u_icmp_type = PStr ''echo''\<rparr>
       = Inl TypeError"
proof -
  have "IcmpObject_init None (PStr ''echo'') None =
     Inr \<lparr>u_name = None, u_icmp_code = None, u_icmp_type = PStr ''echo''\<rparr>"
    by code_simp
  moreover have
    "Icmp_cli_attributes \<lparr>u_name = None, u_icmp_code = None, u_icmp_type = PStr ''echo''\<rparr>
       = Inl TypeError"
    by code_simp
  ultimately show ?thesis by simp
qed

text \<open>No object with an unset code renders its attribute line.\<close>

lemma Icmp_cli_attributes_needs_code:
  assumes "u_icmp_code self = None"
  shows "\<exists>e. Icmp_cli_attributes self = Inl e"
proof (cases "u_verify_icmp_type (icmp_type self) True")
  case (Inl e)
  then show ?thesis by (simp add: Icmp_cli_attributes_def bind_def)
next
  case (Inr b)
  with assms show ?thesis
    by (simp add: Icmp_cli_attributes_def u_verify_icmp_code_def bind_def)
qed

text \<open>With a code set, the scenario of the repository's test renders.\<close>

lemma icmp_echo_40_cli_full:
  "map_sum id fst (bind (IcmpObject_init None (PStr ''echo'') (Some 40)) Icmp_cli_full)
     = Inr [''object service SVC_ICMP_TYPE_ECHO_CODE_40'', '' service icmp echo 40'', ''!'']"
  by code_simp

text \<open>Helper facts on \<^verbatim>\<open>_verify_icmp_type\<close>.\<close>

lemma digits_isnumeric:
  assumes "d \<noteq> []" and "list_all is_ascii_digit d"
  shows "isnumeric d"
  using assms
  by (auto simp: isnumeric_def list_all_iff is_ascii_digit_def is_numeric_char_def Let_def)

lemma verify_icmp_type_symbolic:
  assumes "\<not> isnumeric s"
  shows "u_verify_icmp_type (PStr s) r = Inr True"
  using assms by (simp add: u_verify_icmp_type_def)

lemma verify_icmp_type_None:
  "u_verify_icmp_type PNone r = Inl (ValueError ''ICMP Type not set'')"
  by (simp add: u_verify_icmp_type_def)

lemma verify_icmp_type_int:
  assumes "i \<noteq> 0"
  shows "u_verify_icmp_type (PInt i) r =
    (if 0 \<le> i \<and> i \<le> 255 then Inr True
     else if r then Inl (ValueError ''The given ICMP type is invalid'') else Inr False)"
  using assms by (simp add: u_verify_icmp_type_def bind_def)

lemma verify_icmp_type_digits:
  assumes "d \<noteq> []" and "list_all is_ascii_digit d"
  shows "u_verify_icmp_type (PStr d) r =
    (if digits_val d \<le> 255 then Inr True
     else if r then Inl (ValueError ''The given ICMP type is invalid'') else Inr False)"
  using assms digits_isnumeric [OF assms]
  by (simp add: u_verify_icmp_type_def bind_def)

lemma verify_icmp_type_raising:
  assumes "u_verify_icmp_type v True = Inr b"
  shows "b"
  using assms
  by (cases v) (auto simp: u_verify_icmp_type_def bind_def split: if_splits sum.splits)

lemma icmp_type_setter_value:
  assumes "v \<noteq> PNone"
  shows "icmp_type_setter self v =
    bind (u_verify_icmp_type v True) (\<lambda>_. Inr (self\<lparr>u_icmp_type := v\<rparr>))"
proof (cases "u_verify_icmp_type v True")
  case (Inl e)
  with assms show ?thesis by (simp add: icmp_type_setter_def bind_def)
next
  case (Inr b)
  with verify_icmp_type_raising [OF Inr] assms show ?thesis
    by (simp add: icmp_type_setter_def bind_def)
qed

text \<open>The integer 0 is refused as "not set", although it lies in the range 0 to 255.\<close>

lemma verify_icmp_type_zero:
  "u_verify_icmp_type (PInt 0) r = Inl (ValueError ''ICMP Type not set'')"
  by (simp add: u_verify_icmp_type_def)

text \<open>
  C5, as amended. \<^verbatim>\<open>_verify_icmp_type\<close> accepts every non-numeric string as it is,
  fails for \<^verbatim>\<open>None\<close>, accepts every integer from 1 to 255 and every string of decimal
  digits that denotes a number up to 255, and fails with
  \<^verbatim>\<open>ValueError('The given ICMP type is invalid')\<close> for an integer or a string of
  decimal digits outside 0 to 255. The \<^verbatim>\<open>icmp_type\<close> setter stores \<^verbatim>\<open>None\<close> without
  validating it and any other value exactly when \<^verbatim>\<open>_verify_icmp_type\<close> accepts it,
  failing as it does otherwise; \<^verbatim>\<open>cli_attributes\<close> renders only a type that
  \<^verbatim>\<open>_verify_icmp_type\<close> accepts and fails as it does otherwise. (Nothing is said about
  the integer 0.)
\<close>

theorem icmp_type_validation:
  "(\<not> isnumeric s \<longrightarrow> u_verify_icmp_type (PStr s) r = Inr True)
   \<and> u_verify_icmp_type PNone r = Inl (ValueError ''ICMP Type not set'')
   \<and> (1 \<le> i \<and> i \<le> 255 \<longrightarrow> u_verify_icmp_type (PInt i) r = Inr True)
   \<and> (d \<noteq> [] \<and> list_all is_ascii_digit d \<and> digits_val d \<le> 255 \<longrightarrow>
        u_verify_icmp_type (PStr d) r = Inr True)
   \<and> (i < 0 \<or> 255 < i \<longrightarrow>
        u_verify_icmp_type (PInt i) True = Inl (ValueError ''The given ICMP type is invalid''))
   \<and> (d \<noteq> [] \<and> list_all is_ascii_digit d \<and> 255 < digits_val d \<longrightarrow>
        u_verify_icmp_type (PStr d) True = Inl (ValueError ''The given ICMP type is invalid''))
   \<and> icmp_type_setter self PNone = Inr (self\<lparr>u_icmp_type := PNone\<rparr>)
   \<and> (v \<noteq> PNone \<longrightarrow>
        icmp_type_setter self v =
          bind (u_verify_icmp_type v True) (\<lambda>_. Inr (self\<lparr>u_icmp_type := v\<rparr>)))
   \<and> (\<forall>line. Icmp_cli_attributes self = Inr line \<longrightarrow>
        u_verify_icmp_type (icmp_type self) True = Inr True)
   \<and> (\<forall>e. u_verify_icmp_type (icmp_type self) True = Inl e \<longrightarrow>
        Icmp_cli_attributes self = Inl e)"
proof -
  have 1: "\<not> isnumeric s \<longrightarrow> u_verify_icmp_type (PStr s) r = Inr True"
    by (simp add: verify_icmp_type_symbolic)
  have 3: "1 \<le> i \<and> i \<le> 255 \<longrightarrow> u_verify_icmp_type (PInt i) r = Inr True"
    by (simp add: verify_icmp_type_int)
  have 4: "d \<noteq> [] \<and> list_all is_ascii_digit d \<and> digits_val d \<le> 255 \<longrightarrow>
        u_verify_icmp_type (PStr d) r = Inr True"
    by (simp add: verify_icmp_type_digits)
  have 5: "i < 0 \<or> 255 < i \<longrightarrow>
        u_verify_icmp_type (PInt i) True = Inl (ValueError ''The given ICMP type is invalid'')"
    by (auto simp: verify_icmp_type_int)
  have 6: "d \<noteq> [] \<and> list_all is_ascii_digit d \<and> 255 < digits_val d \<longrightarrow>
        u_verify_icmp_type (PStr d) True = Inl (ValueError ''The given ICMP type is invalid'')"
    by (simp add: verify_icmp_type_digits)
  have 7: "icmp_type_setter self PNone = Inr (self\<lparr>u_icmp_type := PNone\<rparr>)"
    by (simp add: icmp_type_setter_def)
  have 8: "v \<noteq> PNone \<longrightarrow>
        icmp_type_setter self v =
          bind (u_verify_icmp_type v True) (\<lambda>_. Inr (self\<lparr>u_icmp_type := v\<rparr>))"
    by (simp add: icmp_type_setter_value)
  have 9: "u_verify_icmp_type (icmp_type self) True = Inr True"
    if "Icmp_cli_attributes self = Inr line" for line
  proof -
    from that obtain b where b: "u_verify_icmp_type (icmp_type self) True = Inr b"
      unfolding Icmp_cli_attributes_def by (rule bind_InrE)
    with verify_icmp_type_raising [OF b] show ?thesis by simp
  qed
  have 10: "Icmp_cli_attributes self = Inl e"
    if "u_verify_icmp_type (icmp_type self) True = Inl e" for e
    using that by (simp add: Icmp_cli_attributes_def bind_def)
  from 1 verify_icmp_type_None 3 4 5 6 7 8 9 10 show ?thesis by blast
qed

theorem icmp_type_validation_witness:
  "\<not> isnumeric ''echo''
   \<and> u_verify_icmp_type (PStr ''echo'') True = Inr True
   \<and> u_verify_icmp_type (PInt 8) True = Inr True
   \<and> u_verify_icmp_type (PStr ''8'') True = Inr True
   \<and> u_verify_icmp_type (PInt 256) True = Inl (ValueError ''The given ICMP type is invalid'')
   \<and> u_verify_icmp_type (PStr ''256'') True = Inl (ValueError ''The given ICMP type is invalid'')
   \<and> icmp_type_setter \<lparr>u_name = None, u_icmp_code = Some 40, u_icmp_type = PNone\<rparr> (PStr ''echo'')
       = Inr \<lparr>u_name = None, u_icmp_code = Some 40, u_icmp_type = PStr ''echo''\<rparr>
   \<and> Icmp_cli_attributes \<lparr>u_name = None, u_icmp_code = Some 40, u_icmp_type = PStr ''echo''\<rparr>
       = Inr '' service icmp echo 40''
   \<and> Icmp_cli_attributes \<lparr>u_name = None, u_icmp_code = Some 40, u_icmp_type = PInt 256\<rparr>
       = Inl (ValueError ''The given ICMP type is invalid'')"
proof -
  let ?o = "\<lparr>u_name = None, u_icmp_code = Some 40, u_icmp_type = PNone\<rparr>"
  let ?e = "\<lparr>u_name = None, u_icmp_code = Some 40, u_icmp_type = PStr ''echo''\<rparr>"
  let ?b = "\<lparr>u_name = None, u_icmp_code = Some 40, u_icmp_type = PInt 256\<rparr>"
  have h1: "\<not> isnumeric ''echo''" by code_simp
  have h4: "''8'' \<noteq> [] \<and> list_all is_ascii_digit ''8'' \<and> digits_val ''8'' \<le> 255" by code_simp
  have h6: "''256'' \<noteq> [] \<and> list_all is_ascii_digit ''256'' \<and> 255 < digits_val ''256''"
    by code_simp
  have h9: "Icmp_cli_attributes ?e = Inr '' service icmp echo 40''" by code_simp
  note a = icmp_type_validation [of "''echo''" True 8 "''8''" ?e "PStr ''echo''"]
  note b = icmp_type_validation [of "''echo''" True 256 "''256''" ?b "PStr ''echo''"]
  note c = icmp_type_validation [of "''echo''" True 256 "''256''" ?o "PStr ''echo''"]
  have e: "u_verify_icmp_type (PStr ''echo'') True = Inr True" using a h1 by blast
  have s: "icmp_type_setter ?o (PStr ''echo'') = Inr ?e"
    using c e by (simp add: bind_def)
  have i256: "u_verify_icmp_type (PInt 256) True = Inl (ValueError ''The given ICMP type is invalid'')"
    using b by simp
  have r: "Icmp_cli_attributes ?b = Inl (ValueError ''The given ICMP type is invalid'')"
    using b i256 by (simp add: icmp_type_def)
  from h1 e a h4 b h6 s h9 r i256 show ?thesis by simp
qed

text \<open>
  C5, as stated, fails at the setter: assigning \<^verbatim>\<open>None\<close> to \<^verbatim>\<open>icmp_type\<close> does not
  fail, it stores \<^verbatim>\<open>None\<close>.
\<close>

theorem icmp_type_setter_accepts_None:
  "icmp_type_setter \<lparr>u_name = None, u_icmp_code = None, u_icmp_type = PStr ''echo''\<rparr> PNone
     = Inr \<lparr>u_name = None, u_icmp_code = None, u_icmp_type = PNone\<rparr>"
  by (simp add: icmp_type_setter_def)

section \<open>Name generation\<close>

text \<open>
  Each \<^verbatim>\<open>generate_name\<close> stores the name it returns and changes nothing else, and
  it does not read the stored name.
\<close>

lemma TcpOrUdp_generate_name_nonempty:
  assumes "TcpOrUdp_generate_name self = Inr (n, s)"
  shows "n \<noteq> []"
  using assms by (auto simp: TcpOrUdp_generate_name_eq Let_def split: option.splits if_splits)

lemma TcpOrUdp_generate_name_ignores_name:
  "TcpOrUdp_generate_name (self\<lparr>u_name := x\<rparr>) = TcpOrUdp_generate_name self"
  by (simp add: TcpOrUdp_generate_name_eq Let_def cong: option.case_cong if_cong)

lemma Icmp_generate_name_eq:
  "Icmp_generate_name self =
     (if \<not> truthy (icmp_type self)
      then Inl (AssertionError ''ICMP type attribute unset during name generation'')
      else
        (let name = ''SVC_ICMP_TYPE_'' @ str (icmp_type self);
             name = (if truthy_int (icmp_code self)
                     then name @ ''_CODE_'' @ str_opt_int (icmp_code self) else name)
         in bind (upper name) (\<lambda>upper_name.
            Inr (upper_name, self\<lparr>u_name := Some upper_name\<rparr>))))"
proof (cases "truthy (icmp_type self)")
  case False
  then show ?thesis by (subst Icmp_generate_name.simps) simp
next
  case True
  define name where "name =
    (if truthy_int (icmp_code self)
     then (''SVC_ICMP_TYPE_'' @ str (icmp_type self)) @ ''_CODE_'' @ str_opt_int (icmp_code self)
     else ''SVC_ICMP_TYPE_'' @ str (icmp_type self))"
  have ne: "name \<noteq> []" by (simp add: name_def)
  have l: "Icmp_generate_name self =
      (case upper name of
         Inl e \<Rightarrow> Inl e
       | Inr upper_name \<Rightarrow>
           (case u_name (name_setter self (Some upper_name)) of
              Some n \<Rightarrow>
                if n \<noteq> [] then Inr (n, name_setter self (Some upper_name))
                else Icmp_generate_name (name_setter self (Some upper_name))
            | None \<Rightarrow> Icmp_generate_name (name_setter self (Some upper_name))))"
    using True by (subst Icmp_generate_name.simps)
      (simp add: Let_def name_def del: upper.simps append.simps append_assoc
        cong: sum.case_cong)
  have r: "(if \<not> truthy (icmp_type self)
      then Inl (AssertionError ''ICMP type attribute unset during name generation'')
      else
        (let name = ''SVC_ICMP_TYPE_'' @ str (icmp_type self);
             name = (if truthy_int (icmp_code self)
                     then name @ ''_CODE_'' @ str_opt_int (icmp_code self) else name)
         in bind (upper name) (\<lambda>upper_name.
            Inr (upper_name, self\<lparr>u_name := Some upper_name\<rparr>))))
      = bind (upper name) (\<lambda>upper_name. Inr (upper_name, self\<lparr>u_name := Some upper_name\<rparr>))"
    using True by (simp add: Let_def name_def del: upper.simps append.simps append_assoc)
  show ?thesis
  proof (cases "upper name")
    case (Inl e)
    then show ?thesis unfolding l r by (simp add: bind_def)
  next
    case (Inr u)
    with upper_nonempty [OF Inr ne] show ?thesis
      unfolding l r by (simp add: bind_def name_setter_def)
  qed
qed

lemma Icmp_generate_name_fields:
  assumes "Icmp_generate_name self = Inr (n, s)"
  shows "s = self\<lparr>u_name := Some n\<rparr> \<and> n \<noteq> []"
proof -
  define name where "name =
    (if truthy_int (icmp_code self)
     then (''SVC_ICMP_TYPE_'' @ str (icmp_type self)) @ ''_CODE_'' @ str_opt_int (icmp_code self)
     else ''SVC_ICMP_TYPE_'' @ str (icmp_type self))"
  have ne: "name \<noteq> []" by (simp add: name_def)
  from assms have "bind (upper name) (\<lambda>upper_name.
      Inr (upper_name, self\<lparr>u_name := Some upper_name\<rparr>)) = Inr (n, s)"
    by (cases "truthy (icmp_type self)")
      (simp_all add: Icmp_generate_name_eq Let_def name_def
        del: upper.simps append.simps append_assoc)
  then obtain u where u: "upper name = Inr u" and "Inr (u, self\<lparr>u_name := Some u\<rparr>) = Inr (n, s)"
    by (rule bind_InrE) auto
  with upper_nonempty [OF u ne] show ?thesis by auto
qed

lemma Icmp_generate_name_ignores_name:
  "Icmp_generate_name (self\<lparr>u_name := x\<rparr>) = Icmp_generate_name self"
  by (simp add: Icmp_generate_name_eq Let_def icmp_type_def icmp_code_def bind_def
      del: upper.simps append.simps append_assoc cong: sum.case_cong if_cong)

lemma generate_name_fields:
  assumes "generate_name self = Inr (n, s)"
  shows "s = self\<lparr>self_name := Some n\<rparr>"
proof -
  from assms obtain m where "Inr (m, self\<lparr>self_name := Some m\<rparr>) = Inr (n, s)"
    unfolding generate_name_def by (rule bind_InrE) auto
  then show ?thesis by auto
qed

lemma generate_name_ignores_name:
  "generate_name (self\<lparr>self_name := x\<rparr>) = generate_name self"
  by (simp add: generate_name_def cong: type_value.case_cong ObjectType.case_cong)

text \<open>
  The \<^verbatim>\<open>name\<close> getter over a \<^verbatim>\<open>generate_name\<close> that stores the non-empty name it
  returns: the result is stored in \<^verbatim>\<open>_name\<close>, and reading again returns it.
\<close>

lemma name_getter_cached:
  assumes gen: "\<And>self n s. gen self = Inr (n, s) \<Longrightarrow> s = self\<lparr>u_name := Some n\<rparr> \<and> n \<noteq> []"
    and "name_getter gen self = Inr (n, s)"
  shows "u_name s = Some n \<and> n \<noteq> [] \<and> name_getter gen s = Inr (n, s)"
proof (cases "truthy_str (u_name self)")
  case True
  with assms(2) have "s = self" and "u_name self = Some n" and "n \<noteq> []"
    by (cases "u_name self"; simp add: name_getter_def truthy_str_def)+
  then show ?thesis by (simp add: name_getter_def)
next
  case False
  with assms(2) have "gen self = Inr (n, s)"
    by (cases "u_name self") (simp_all add: name_getter_def truthy_str_def)
  from gen [OF this] show ?thesis by (simp add: name_getter_def)
qed

lemma name_getter_stored:
  assumes "u_name self = Some m" and "m \<noteq> []"
  shows "name_getter gen self = Inr (m, self)"
  using assms by (simp add: name_getter_def)

lemma name_getter_unset:
  assumes "\<not> truthy_str (u_name self)"
  shows "name_getter gen self = gen self"
  using assms by (cases "u_name self") (simp_all add: name_getter_def truthy_str_def)

text \<open>
  C8. Name generation is a function of the attributes other than the stored name, and
  it is idempotent: when \<^verbatim>\<open>generate_name()\<close> returns a name, calling it again on the
  resulting object returns the same name and leaves the object as it is. This holds
  for \<^verbatim>\<open>NetworkObject\<close>, for \<^verbatim>\<open>TcpObject\<close>/\<^verbatim>\<open>UdpObject\<close> and for \<^verbatim>\<open>IcmpObject\<close>.
  For the service objects the \<^verbatim>\<open>name\<close> property is lazy and cached: a stored
  non-empty name, given explicitly or cached, is returned as it is, without generating
  and without changing the object; only when none is stored is the name generated,
  and then it is stored in \<^verbatim>\<open>_name\<close>; reading again returns the same name, and so
  does every later read of an object that still holds it in \<^verbatim>\<open>_name\<close>, whatever its
  other attributes have become.
\<close>

theorem name_generation_idempotent:
  "(\<forall>n s. generate_name nobj = Inr (n, s) \<longrightarrow> generate_name s = Inr (n, s))
   \<and> (\<forall>n s. TcpOrUdp_generate_name tobj = Inr (n, s) \<longrightarrow> TcpOrUdp_generate_name s = Inr (n, s))
   \<and> (\<forall>n s. Icmp_generate_name iobj = Inr (n, s) \<longrightarrow> Icmp_generate_name s = Inr (n, s))
   \<and> generate_name (nobj\<lparr>self_name := x\<rparr>) = generate_name nobj
   \<and> TcpOrUdp_generate_name (tobj\<lparr>u_name := x\<rparr>) = TcpOrUdp_generate_name tobj
   \<and> Icmp_generate_name (iobj\<lparr>u_name := x\<rparr>) = Icmp_generate_name iobj
   \<and> (\<forall>n s. TcpOrUdp_name tobj = Inr (n, s) \<longrightarrow>
         u_name s = Some n \<and> TcpOrUdp_name s = Inr (n, s))
   \<and> (\<forall>n s. Icmp_name iobj = Inr (n, s) \<longrightarrow>
         u_name s = Some n \<and> Icmp_name s = Inr (n, s))
   \<and> (\<forall>m. u_name tobj = Some m \<and> m \<noteq> [] \<longrightarrow> TcpOrUdp_name tobj = Inr (m, tobj))
   \<and> (\<forall>m. u_name iobj = Some m \<and> m \<noteq> [] \<longrightarrow> Icmp_name iobj = Inr (m, iobj))
   \<and> (\<not> truthy_str (u_name tobj) \<longrightarrow> TcpOrUdp_name tobj = TcpOrUdp_generate_name tobj)
   \<and> (\<not> truthy_str (u_name iobj) \<longrightarrow> Icmp_name iobj = Icmp_generate_name iobj)
   \<and> (\<forall>n s later. TcpOrUdp_name tobj = Inr (n, s) \<longrightarrow> u_name later = Some n \<longrightarrow>
         TcpOrUdp_name later = Inr (n, later))
   \<and> (\<forall>n s later. Icmp_name iobj = Inr (n, s) \<longrightarrow> u_name later = Some n \<longrightarrow>
         Icmp_name later = Inr (n, later))"
proof -
  have 1: "generate_name s = Inr (n, s)" if "generate_name nobj = Inr (n, s)" for n s
    using that generate_name_fields [OF that]
      generate_name_ignores_name [where self = nobj and x = "Some n"]
    by simp
  have 2: "TcpOrUdp_generate_name s = Inr (n, s)"
    if "TcpOrUdp_generate_name tobj = Inr (n, s)" for n s
    using that TcpOrUdp_generate_name_fields [OF that]
      TcpOrUdp_generate_name_ignores_name [where self = tobj and x = "Some n"]
    by simp
  have 3: "Icmp_generate_name s = Inr (n, s)" if "Icmp_generate_name iobj = Inr (n, s)" for n s
    using that Icmp_generate_name_fields [OF that]
      Icmp_generate_name_ignores_name [where self = iobj and x = "Some n"]
    by simp
  have t: "s = self\<lparr>u_name := Some n\<rparr> \<and> n \<noteq> []"
    if "TcpOrUdp_generate_name self = Inr (n, s)" for self n s
    using TcpOrUdp_generate_name_fields [OF that] TcpOrUdp_generate_name_nonempty [OF that]
    by simp
  have tc: "u_name s = Some n \<and> n \<noteq> [] \<and> TcpOrUdp_name s = Inr (n, s)"
    if "TcpOrUdp_name tobj = Inr (n, s)" for n s
    using name_getter_cached [of TcpOrUdp_generate_name tobj n s] t that
    unfolding TcpOrUdp_name_def by blast
  have ic: "u_name s = Some n \<and> n \<noteq> [] \<and> Icmp_name s = Inr (n, s)"
    if "Icmp_name iobj = Inr (n, s)" for n s
    using name_getter_cached [of Icmp_generate_name iobj n s] Icmp_generate_name_fields that
    unfolding Icmp_name_def by blast
  have 7: "u_name s = Some n \<and> TcpOrUdp_name s = Inr (n, s)"
    if "TcpOrUdp_name tobj = Inr (n, s)" for n s
    using tc [OF that] by simp
  have 8: "u_name s = Some n \<and> Icmp_name s = Inr (n, s)"
    if "Icmp_name iobj = Inr (n, s)" for n s
    using ic [OF that] by simp
  have 9: "TcpOrUdp_name tobj = Inr (m, tobj)" if "u_name tobj = Some m \<and> m \<noteq> []" for m
    using that by (simp add: TcpOrUdp_name_def name_getter_stored)
  have 10: "Icmp_name iobj = Inr (m, iobj)" if "u_name iobj = Some m \<and> m \<noteq> []" for m
    using that by (simp add: Icmp_name_def name_getter_stored)
  have 11: "TcpOrUdp_name tobj = TcpOrUdp_generate_name tobj" if "\<not> truthy_str (u_name tobj)"
    using that by (simp add: TcpOrUdp_name_def name_getter_unset)
  have 12: "Icmp_name iobj = Icmp_generate_name iobj" if "\<not> truthy_str (u_name iobj)"
    using that by (simp add: Icmp_name_def name_getter_unset)
  have 13: "TcpOrUdp_name later = Inr (n, later)"
    if "TcpOrUdp_name tobj = Inr (n, s)" "u_name later = Some n" for n s later
    using tc [OF that(1)] that(2) by (simp add: TcpOrUdp_name_def name_getter_stored)
  have 14: "Icmp_name later = Inr (n, later)"
    if "Icmp_name iobj = Inr (n, s)" "u_name later = Some n" for n s later
    using ic [OF that(1)] that(2) by (simp add: Icmp_name_def name_getter_stored)
  have a: "(\<forall>n s. generate_name nobj = Inr (n, s) \<longrightarrow> generate_name s = Inr (n, s))
   \<and> (\<forall>n s. TcpOrUdp_generate_name tobj = Inr (n, s) \<longrightarrow> TcpOrUdp_generate_name s = Inr (n, s))
   \<and> (\<forall>n s. Icmp_generate_name iobj = Inr (n, s) \<longrightarrow> Icmp_generate_name s = Inr (n, s))"
    using 1 2 3 by blast
  have b: "generate_name (nobj\<lparr>self_name := x\<rparr>) = generate_name nobj
   \<and> TcpOrUdp_generate_name (tobj\<lparr>u_name := x\<rparr>) = TcpOrUdp_generate_name tobj
   \<and> Icmp_generate_name (iobj\<lparr>u_name := x\<rparr>) = Icmp_generate_name iobj"
    using generate_name_ignores_name [where self = nobj and x = x]
      TcpOrUdp_generate_name_ignores_name [where self = tobj and x = x]
      Icmp_generate_name_ignores_name [where self = iobj and x = x]
    by simp
  have c: "(\<forall>n s. TcpOrUdp_name tobj = Inr (n, s) \<longrightarrow>
         u_name s = Some n \<and> TcpOrUdp_name s = Inr (n, s))
   \<and> (\<forall>n s. Icmp_name iobj = Inr (n, s) \<longrightarrow>
         u_name s = Some n \<and> Icmp_name s = Inr (n, s))"
    using 7 8 by blast
  have d: "(\<forall>m. u_name tobj = Some m \<and> m \<noteq> [] \<longrightarrow> TcpOrUdp_name tobj = Inr (m, tobj))
   \<and> (\<forall>m. u_name iobj = Some m \<and> m \<noteq> [] \<longrightarrow> Icmp_name iobj = Inr (m, iobj))
   \<and> (\<not> truthy_str (u_name tobj) \<longrightarrow> TcpOrUdp_name tobj = TcpOrUdp_generate_name tobj)
   \<and> (\<not> truthy_str (u_name iobj) \<longrightarrow> Icmp_name iobj = Icmp_generate_name iobj)"
    using 9 10 11 12 by blast
  have e: "(\<forall>n s later. TcpOrUdp_name tobj = Inr (n, s) \<longrightarrow> u_name later = Some n \<longrightarrow>
         TcpOrUdp_name later = Inr (n, later))
   \<and> (\<forall>n s later. Icmp_name iobj = Inr (n, s) \<longrightarrow> u_name later = Some n \<longrightarrow>
         Icmp_name later = Inr (n, later))"
    using 13 14 by blast
  from a b c d e show ?thesis by (elim conjE) (intro conjI; assumption)
qed

theorem name_generation_idempotent_witness:
  "(\<exists>s. generate_name
          \<lparr>self_description = None, self_name = None, self_type = TypeOf HOST,
           self_ip = Some \<lparr>network_address = 167837957, prefixlen = 32\<rparr>,
           self_end_ip = None, self_fqdn = None\<rparr> = Inr (''HOST_10.1.1.5'', s)
        \<and> generate_name s = Inr (''HOST_10.1.1.5'', s))
   \<and> (\<exists>s. TcpOrUdp_name
          ((blank TcpObject)\<lparr>dest_port_selecter_type := Some SINGLE, u_dest_port := Some 443\<rparr>)
          = Inr (''SVC_TCP_DEST_EQ_443'', s)
        \<and> TcpOrUdp_generate_name s = Inr (''SVC_TCP_DEST_EQ_443'', s)
        \<and> u_name s = Some ''SVC_TCP_DEST_EQ_443''
        \<and> TcpOrUdp_name s = Inr (''SVC_TCP_DEST_EQ_443'', s))
   \<and> (\<exists>s. Icmp_name \<lparr>u_name = None, u_icmp_code = Some 40, u_icmp_type = PStr ''echo''\<rparr>
          = Inr (''SVC_ICMP_TYPE_ECHO_CODE_40'', s)
        \<and> Icmp_generate_name s = Inr (''SVC_ICMP_TYPE_ECHO_CODE_40'', s)
        \<and> u_name s = Some ''SVC_ICMP_TYPE_ECHO_CODE_40''
        \<and> Icmp_name s = Inr (''SVC_ICMP_TYPE_ECHO_CODE_40'', s))
   \<and> TcpOrUdp_name
        ((blank TcpObject)\<lparr>dest_port_selecter_type := Some SINGLE, u_dest_port := Some 443\<rparr>)
      = TcpOrUdp_generate_name
        ((blank TcpObject)\<lparr>dest_port_selecter_type := Some SINGLE, u_dest_port := Some 443\<rparr>)
   \<and> Icmp_name \<lparr>u_name = None, u_icmp_code = Some 40, u_icmp_type = PStr ''echo''\<rparr>
      = Icmp_generate_name \<lparr>u_name = None, u_icmp_code = Some 40, u_icmp_type = PStr ''echo''\<rparr>
   \<and> TcpOrUdp_name
        ((blank TcpObject)\<lparr>dest_port_selecter_type := Some SINGLE, u_dest_port := Some 443,
           u_name := Some ''Stu''\<rparr>)
      = Inr (''Stu'',
          (blank TcpObject)\<lparr>dest_port_selecter_type := Some SINGLE, u_dest_port := Some 443,
           u_name := Some ''Stu''\<rparr>)
   \<and> Icmp_name \<lparr>u_name = Some ''Stu'', u_icmp_code = Some 40, u_icmp_type = PStr ''echo''\<rparr>
      = Inr (''Stu'', \<lparr>u_name = Some ''Stu'', u_icmp_code = Some 40, u_icmp_type = PStr ''echo''\<rparr>)
   \<and> TcpOrUdp_name
        ((blank TcpObject)\<lparr>dest_port_selecter_type := Some SINGLE, u_dest_port := Some 80,
           u_name := Some ''SVC_TCP_DEST_EQ_443''\<rparr>)
      = Inr (''SVC_TCP_DEST_EQ_443'',
          (blank TcpObject)\<lparr>dest_port_selecter_type := Some SINGLE, u_dest_port := Some 80,
           u_name := Some ''SVC_TCP_DEST_EQ_443''\<rparr>)
   \<and> Icmp_name
        \<lparr>u_name = Some ''SVC_ICMP_TYPE_ECHO_CODE_40'', u_icmp_code = None,
         u_icmp_type = PStr ''echo''\<rparr>
      = Inr (''SVC_ICMP_TYPE_ECHO_CODE_40'',
          \<lparr>u_name = Some ''SVC_ICMP_TYPE_ECHO_CODE_40'', u_icmp_code = None,
           u_icmp_type = PStr ''echo''\<rparr>)"
proof -
  let ?n = "\<lparr>self_description = None, self_name = None, self_type = TypeOf HOST,
           self_ip = Some \<lparr>network_address = 167837957, prefixlen = 32\<rparr>,
           self_end_ip = None, self_fqdn = None\<rparr>"
  let ?t = "(blank TcpObject)\<lparr>dest_port_selecter_type := Some SINGLE, u_dest_port := Some 443\<rparr>"
  let ?i = "\<lparr>u_name = None, u_icmp_code = Some 40, u_icmp_type = PStr ''echo''\<rparr>"
  let ?te = "(blank TcpObject)\<lparr>dest_port_selecter_type := Some SINGLE, u_dest_port := Some 443,
           u_name := Some ''Stu''\<rparr>"
  let ?ie = "\<lparr>u_name = Some ''Stu'', u_icmp_code = Some 40, u_icmp_type = PStr ''echo''\<rparr>"
  let ?tl = "(blank TcpObject)\<lparr>dest_port_selecter_type := Some SINGLE, u_dest_port := Some 80,
           u_name := Some ''SVC_TCP_DEST_EQ_443''\<rparr>"
  let ?il = "\<lparr>u_name = Some ''SVC_ICMP_TYPE_ECHO_CODE_40'', u_icmp_code = None,
         u_icmp_type = PStr ''echo''\<rparr>"
  let ?ns = "?n\<lparr>self_name := Some ''HOST_10.1.1.5''\<rparr>"
  let ?ts = "?t\<lparr>u_name := Some ''SVC_TCP_DEST_EQ_443''\<rparr>"
  let ?is = "?i\<lparr>u_name := Some ''SVC_ICMP_TYPE_ECHO_CODE_40''\<rparr>"
  have n: "generate_name ?n = Inr (''HOST_10.1.1.5'', ?ns)"
    by code_simp
  have tg: "TcpOrUdp_generate_name ?t = Inr (''SVC_TCP_DEST_EQ_443'', ?ts)"
    by code_simp
  have t: "TcpOrUdp_name ?t = Inr (''SVC_TCP_DEST_EQ_443'', ?ts)"
    by code_simp
  have ig: "Icmp_generate_name ?i = Inr (''SVC_ICMP_TYPE_ECHO_CODE_40'', ?is)"
    by code_simp
  have i: "Icmp_name ?i = Inr (''SVC_ICMP_TYPE_ECHO_CODE_40'', ?is)"
    by code_simp
  have unset: "\<not> truthy_str (u_name ?t)" "\<not> truthy_str (u_name ?i)"
    by (simp_all add: truthy_str_def blank_def)
  have stored: "u_name ?te = Some ''Stu'' \<and> ''Stu'' \<noteq> []"
      "u_name ?ie = Some ''Stu'' \<and> ''Stu'' \<noteq> []"
    by simp_all
  have later: "u_name ?tl = Some ''SVC_TCP_DEST_EQ_443''"
      "u_name ?il = Some ''SVC_ICMP_TYPE_ECHO_CODE_40''"
    by simp_all
  note w = name_generation_idempotent [where nobj = ?n and tobj = ?t and iobj = ?i and x = None]
  note v = name_generation_idempotent [where nobj = ?n and tobj = ?te and iobj = ?ie and x = None]
  note w2 = w [THEN conjunct2]
  note w3 = w2 [THEN conjunct2]
  note w7 = w3 [THEN conjunct2, THEN conjunct2, THEN conjunct2, THEN conjunct2]
  note w8 = w7 [THEN conjunct2]
  note w11 = w8 [THEN conjunct2, THEN conjunct2, THEN conjunct2]
  note w12 = w11 [THEN conjunct2]
  note w13 = w12 [THEN conjunct2]
  note v9 = v [THEN conjunct2, THEN conjunct2, THEN conjunct2, THEN conjunct2,
      THEN conjunct2, THEN conjunct2, THEN conjunct2, THEN conjunct2]
  have n': "generate_name ?ns = Inr (''HOST_10.1.1.5'', ?ns)"
    by (rule w [THEN conjunct1, rule_format, OF n])
  have tg': "TcpOrUdp_generate_name ?ts = Inr (''SVC_TCP_DEST_EQ_443'', ?ts)"
    by (rule w2 [THEN conjunct1, rule_format, OF tg])
  have ig': "Icmp_generate_name ?is = Inr (''SVC_ICMP_TYPE_ECHO_CODE_40'', ?is)"
    by (rule w3 [THEN conjunct1, rule_format, OF ig])
  have t': "u_name ?ts = Some ''SVC_TCP_DEST_EQ_443''
      \<and> TcpOrUdp_name ?ts = Inr (''SVC_TCP_DEST_EQ_443'', ?ts)"
    by (rule w7 [THEN conjunct1, THEN spec, THEN spec, THEN mp, OF t])
  have i': "u_name ?is = Some ''SVC_ICMP_TYPE_ECHO_CODE_40''
      \<and> Icmp_name ?is = Inr (''SVC_ICMP_TYPE_ECHO_CODE_40'', ?is)"
    by (rule w8 [THEN conjunct1, THEN spec, THEN spec, THEN mp, OF i])
  have p1: "\<exists>s. generate_name ?n = Inr (''HOST_10.1.1.5'', s)
        \<and> generate_name s = Inr (''HOST_10.1.1.5'', s)"
    using n n' by blast
  have p2: "\<exists>s. TcpOrUdp_name ?t = Inr (''SVC_TCP_DEST_EQ_443'', s)
        \<and> TcpOrUdp_generate_name s = Inr (''SVC_TCP_DEST_EQ_443'', s)
        \<and> u_name s = Some ''SVC_TCP_DEST_EQ_443''
        \<and> TcpOrUdp_name s = Inr (''SVC_TCP_DEST_EQ_443'', s)"
    using t tg' t' by blast
  have p3: "\<exists>s. Icmp_name ?i = Inr (''SVC_ICMP_TYPE_ECHO_CODE_40'', s)
        \<and> Icmp_generate_name s = Inr (''SVC_ICMP_TYPE_ECHO_CODE_40'', s)
        \<and> u_name s = Some ''SVC_ICMP_TYPE_ECHO_CODE_40''
        \<and> Icmp_name s = Inr (''SVC_ICMP_TYPE_ECHO_CODE_40'', s)"
    using i ig' i' by blast
  have p4: "TcpOrUdp_name ?t = TcpOrUdp_generate_name ?t"
    by (rule w11 [THEN conjunct1, THEN mp, OF unset(1)])
  have p5: "Icmp_name ?i = Icmp_generate_name ?i"
    by (rule w12 [THEN conjunct1, THEN mp, OF unset(2)])
  have p6: "TcpOrUdp_name ?te = Inr (''Stu'', ?te)"
    by (rule v9 [THEN conjunct1, THEN spec, THEN mp, OF stored(1)])
  have p7: "Icmp_name ?ie = Inr (''Stu'', ?ie)"
    by (rule v9 [THEN conjunct2, THEN conjunct1, THEN spec, THEN mp, OF stored(2)])
  have p8: "TcpOrUdp_name ?tl = Inr (''SVC_TCP_DEST_EQ_443'', ?tl)"
    by (rule w13 [THEN conjunct1, THEN spec, THEN spec, THEN spec, THEN mp, THEN mp,
          OF t later(1)])
  have p9: "Icmp_name ?il = Inr (''SVC_ICMP_TYPE_ECHO_CODE_40'', ?il)"
    by (rule w13 [THEN conjunct2, THEN spec, THEN spec, THEN spec, THEN mp, THEN mp,
          OF i later(2)])
  show ?thesis
    by (rule conjI p1 p2 p3 p4 p5 p6 p7 p8 p9)+
qed

section \<open>Properties of \<^verbatim>\<open>NetworkObject\<close>\<close>

text \<open>
  C1. \<^verbatim>\<open>NetworkObject(ob_type=NetworkObject.ObjectType.HOST, ip="10.1.1.5")\<close> is
  constructed, and \<^verbatim>\<open>cli_definition()\<close> and \<^verbatim>\<open>cli_attributes()\<close> return the two
  expected lines; but the first two elements of \<^verbatim>\<open>cli_full()\<close> are the two bound
  methods, not the strings they would return.
\<close>

theorem network_cli_full_holds_bound_methods:
  "map_sum id cli_full
     (NetworkObject_init
        \<lparr>arg_ob_type = TypeOf HOST, arg_ip = PStr ''10.1.1.5'', arg_netmask = PNone,
         arg_description = None, arg_CIDR = PNone, arg_object_name = None, arg_fqdn = PNone,
         arg_end_ip = PNone\<rparr>)
     = Inr [BoundMethod Method_cli_definition, BoundMethod Method_cli_attributes, Text ''!'']
   \<and> map_sum id fst
       (bind
          (NetworkObject_init
             \<lparr>arg_ob_type = TypeOf HOST, arg_ip = PStr ''10.1.1.5'', arg_netmask = PNone,
              arg_description = None, arg_CIDR = PNone, arg_object_name = None,
              arg_fqdn = PNone, arg_end_ip = PNone\<rparr>)
          cli_definition)
     = Inr ''object network HOST_10.1.1.5''
   \<and> bind
       (NetworkObject_init
          \<lparr>arg_ob_type = TypeOf HOST, arg_ip = PStr ''10.1.1.5'', arg_netmask = PNone,
           arg_description = None, arg_CIDR = PNone, arg_object_name = None, arg_fqdn = PNone,
           arg_end_ip = PNone\<rparr>)
       cli_attributes
     = Inr '' host 10.1.1.5''"
proof -
  let ?a = "\<lparr>arg_ob_type = TypeOf HOST, arg_ip = PStr ''10.1.1.5'', arg_netmask = PNone,
         arg_description = None, arg_CIDR = PNone, arg_object_name = None, arg_fqdn = PNone,
         arg_end_ip = PNone\<rparr>"
  have 1: "map_sum id cli_full (NetworkObject_init ?a)
     = Inr [BoundMethod Method_cli_definition, BoundMethod Method_cli_attributes, Text ''!'']"
    by code_simp
  have 2: "map_sum id fst (bind (NetworkObject_init ?a) cli_definition)
     = Inr ''object network HOST_10.1.1.5''"
    by code_simp
  have 3: "bind (NetworkObject_init ?a) cli_attributes = Inr '' host 10.1.1.5''"
    by code_simp
  from 1 2 3 show ?thesis by simp
qed

text \<open>For every object, the list begins with the two bound methods and ends with \<^verbatim>\<open>!\<close>.\<close>

lemma cli_full_shape:
  "\<exists>middle. cli_full self =
     [BoundMethod Method_cli_definition, BoundMethod Method_cli_attributes] @ middle @ [Text ''!'']"
  by (cases "self_description self") (auto simp: cli_full_def Let_def)

text \<open>Helper facts on the parser and on the initializer.\<close>

lemma py_split_no_separator:
  assumes "sep \<notin> set s"
  shows "py_split sep s = [s]"
  using assms by (induction s) auto

lemma IPv4Network_of_prefixlen:
  assumes "IPv4Network_of addr p = Inr n"
  shows "prefixlen n = p"
proof -
  from assms obtain packed where
    "(if packed AND ip_int_from_prefix p \<noteq> packed
      then Inl (ValueError (str_address packed @ ''/'' @ str_nat p @ '' has host bits set''))
      else Inr \<lparr>network_address = packed, prefixlen = p\<rparr>) = Inr n"
    unfolding IPv4Network_of_def by (rule bind_InrE) auto
  then show ?thesis by (cases "packed AND ip_int_from_prefix p \<noteq> packed") auto
qed

lemma IPv4Network_without_slash:
  assumes "CHR ''/'' \<notin> set (str ip)" and "IPv4Network ip = Inr n"
  shows "prefixlen n = 32"
proof (cases ip)
  case PNone
  with assms(2) have "IPv4Network_of ''None'' 32 = Inr n"
    by (simp add: IPv4Network_def)
  then show ?thesis by (rule IPv4Network_of_prefixlen)
next
  case (PInt i)
  with assms(2) show ?thesis
    by (auto simp: IPv4Network_def split: if_splits)
next
  case (PStr s)
  with assms have "IPv4Network_of s 32 = Inr n"
    by (simp add: IPv4Network_def py_split_no_separator)
  then show ?thesis by (rule IPv4Network_of_prefixlen)
qed

lemma py_split_one_separator:
  assumes "sep \<notin> set a" and "sep \<notin> set b"
  shows "py_split sep (a @ sep # b) = [a, b]"
  using assms by (induction a) (auto simp: py_split_no_separator)

lemma IPv4Network_of_fields:
  assumes "IPv4Network_of addr p = Inr n"
  shows "ip_int_from_string addr = Inr (network_address n) \<and> prefixlen n = p"
proof -
  from assms obtain packed where a: "ip_int_from_string addr = Inr packed" and
    "(if packed AND ip_int_from_prefix p \<noteq> packed
      then Inl (ValueError (str_address packed @ ''/'' @ str_nat p @ '' has host bits set''))
      else Inr \<lparr>network_address = packed, prefixlen = p\<rparr>) = Inr n"
    unfolding IPv4Network_of_def by (rule bind_InrE) auto
  then have "n = \<lparr>network_address = packed, prefixlen = p\<rparr>"
    by (cases "packed AND ip_int_from_prefix p \<noteq> packed") auto
  with a show ?thesis by simp
qed

lemma IPv4Network_with_mask:
  assumes "CHR ''/'' \<notin> set addr" and "CHR ''/'' \<notin> set m"
    and "IPv4Network (PStr (addr @ CHR ''/'' # m)) = Inr n"
  shows "ip_int_from_string addr = Inr (network_address n) \<and> make_netmask m = Inr (prefixlen n)"
proof -
  from assms have "bind (ip_int_from_string addr) (\<lambda>_.
      bind (make_netmask m) (\<lambda>p. IPv4Network_of addr p)) = Inr n"
    by (simp add: IPv4Network_def py_split_one_separator)
  then obtain x where "bind (make_netmask m) (\<lambda>p. IPv4Network_of addr p) = Inr n"
    by (rule bind_InrE) auto
  then obtain p where p: "make_netmask m = Inr p" and "IPv4Network_of addr p = Inr n"
    by (rule bind_InrE) auto
  from IPv4Network_of_fields [OF this(2)] p show ?thesis by simp
qed

lemma digit_is_no_dot:
  assumes "list_all is_ascii_digit s"
  shows "CHR ''.'' \<notin> set s"
  using assms by (auto simp: list_all_iff is_ascii_digit_def)

lemma ip_int_from_string_no_dot:
  assumes "CHR ''.'' \<notin> set s"
  shows "ip_int_from_string s = Inl AddressValueError"
  by (simp add: ip_int_from_string_def py_split_no_separator [OF assms] split: option.splits)

lemma ip_int_from_string_digits:
  assumes "list_all is_ascii_digit s"
  shows "ip_int_from_string s = Inl AddressValueError"
  by (rule ip_int_from_string_no_dot [OF digit_is_no_dot [OF assms]])

lemma make_netmask_digits:
  assumes "list_all is_ascii_digit m" and "make_netmask m = Inr p"
  shows "p = digits_val m"
  using assms
  by (auto simp: make_netmask_def prefix_from_prefix_string_def prefix_from_ip_string_def
      ip_int_from_string_digits split: if_splits)


lemma digit_char_digit:
  assumes "d < 10"
  shows "is_ascii_digit (digit_char d) \<and> digit_val (digit_char d) = d"
proof -
  have "list_all (\<lambda>d. is_ascii_digit (digit_char d) \<and> digit_val (digit_char d) = d) [0..<10]"
    by code_simp
  with assms show ?thesis by (simp add: list_all_iff)
qed

lemma digits_val_snoc:
  "digits_val (s @ [c]) = 10 * digits_val s + digit_val c"
  by (simp add: digits_val_def)

lemma str_nat_digits:
  "list_all is_ascii_digit (str_nat k) \<and> digits_val (str_nat k) = k \<and> str_nat k \<noteq> []"
proof (induction k rule: str_nat.induct)
  case (1 n)
  show ?case
  proof (cases "n < 10")
    case True
    with digit_char_digit [of n] show ?thesis
      by (subst (1 2 3) str_nat.simps) (simp add: digits_val_def)
  next
    case False
    have "n mod 10 < 10" by simp
    from digit_char_digit [OF this] 1 [OF False] False show ?thesis
      by (subst (1 2 3) str_nat.simps) (simp add: digits_val_snoc)
  qed
qed

lemma make_netmask_str_int:
  assumes "make_netmask (str_int c) = Inr p"
  shows "int p = c"
proof (cases "c < 0")
  case True
  have d: "list_all is_ascii_digit (str_nat (nat (- c)))"
    using str_nat_digits by blast
  have "\<not> is_ascii_digit CHR ''-''" by (simp add: is_ascii_digit_def)
  with True have "prefix_from_prefix_string (str_int c) = None"
    by (simp add: prefix_from_prefix_string_def str_int_def)
  moreover have "CHR ''.'' \<notin> set (str_int c)"
    using True digit_is_no_dot [OF d] by (simp add: str_int_def)
  ultimately have "make_netmask (str_int c) = Inl NetmaskValueError"
    by (simp add: make_netmask_def prefix_from_ip_string_def ip_int_from_string_no_dot)
  with assms show ?thesis by simp
next
  case False
  then have s: "str_int c = str_nat (nat c)" by (simp add: str_int_def)
  from str_nat_digits [of "nat c"] have d: "list_all is_ascii_digit (str_nat (nat c))"
    and v: "digits_val (str_nat (nat c)) = nat c" by simp_all
  from make_netmask_digits [OF d] assms s v have "p = nat c" by simp
  with False show ?thesis by simp
qed


lemma zero_bits_le: "zero_bits bits number \<le> bits"
  by (induction bits arbitrary: number) auto

lemma zero_bits_dvd: "2 ^ zero_bits bits number dvd number"
proof (induction bits arbitrary: number)
  case 0
  show ?case by simp
next
  case (Suc bits)
  show ?case
  proof (cases "odd number")
    case True
    then show ?thesis by simp
  next
    case False
    from Suc [of "number div 2"] have "2 * 2 ^ zero_bits bits (number div 2) dvd 2 * (number div 2)"
      by (rule mult_dvd_mono [OF dvd_refl])
    with False show ?thesis by simp
  qed
qed

lemma count_righthand_zero_bits_bounds:
  "count_righthand_zero_bits number bits \<le> bits
   \<and> 2 ^ count_righthand_zero_bits number bits dvd number"
  by (simp add: count_righthand_zero_bits_def zero_bits_le zero_bits_dvd)

lemma ip_int_from_prefix_eq:
  assumes "p \<le> 32"
  shows "ip_int_from_prefix p = 2 ^ 32 - 2 ^ (32 - p)"
proof -
  have "list_all (\<lambda>p. ip_int_from_prefix p = 2 ^ 32 - 2 ^ (32 - p)) [0..<33]"
    by code_simp
  with assms show ?thesis by (simp add: list_all_iff)
qed

lemma prefix_from_ip_int_inverse:
  assumes "prefix_from_ip_int mi = Some p"
  shows "ip_int_from_prefix p = mi"
proof -
  define tz where "tz = count_righthand_zero_bits mi 32"
  from count_righthand_zero_bits_bounds [of mi 32]
  have le: "tz \<le> 32" and dvd: "2 ^ tz dvd mi" by (simp_all add: tz_def)
  from assms have p: "p = 32 - tz" and ones: "drop_bit tz mi = 2 ^ p - 1"
    by (simp_all add: prefix_from_ip_int_def Let_def tz_def split: if_splits)
  from dvd have "mi = (mi div 2 ^ tz) * 2 ^ tz" by simp
  also have "mi div 2 ^ tz = 2 ^ p - 1" using ones by (simp add: drop_bit_eq_div)
  also have "(2 ^ p - 1) * 2 ^ tz = (2 ^ (p + tz) - 2 ^ tz :: int)"
    by (simp add: algebra_simps power_add)
  finally have "mi = 2 ^ 32 - 2 ^ tz" using p le by simp
  moreover have "ip_int_from_prefix p = 2 ^ 32 - 2 ^ tz"
    using ip_int_from_prefix_eq [of p] p le by simp
  ultimately show ?thesis by simp
qed

lemma make_netmask_dotted:
  assumes "ip_int_from_string m = Inr mi" and "make_netmask m = Inr p"
  shows "ip_int_from_prefix p = (if prefix_from_ip_int mi = None then mi XOR ALL_ONES else mi)"
proof -
  have "\<not> list_all is_ascii_digit m"
    using assms(1) ip_int_from_string_digits [of m] by auto
  then have "prefix_from_prefix_string m = None"
    by (simp add: prefix_from_prefix_string_def)
  with assms have s: "prefix_from_ip_string m = Inr p"
    by (simp add: make_netmask_def)
  show ?thesis
  proof (cases "prefix_from_ip_int mi")
    case None
    with s assms(1) have "prefix_from_ip_int (mi XOR ALL_ONES) = Some p"
      by (cases "prefix_from_ip_int (mi XOR ALL_ONES)") (simp_all add: prefix_from_ip_string_def)
    from prefix_from_ip_int_inverse [OF this] None show ?thesis by simp
  next
    case (Some q)
    with s assms(1) have "q = p" by (simp add: prefix_from_ip_string_def)
    with Some prefix_from_ip_int_inverse [of mi p] show ?thesis by simp
  qed
qed

lemma name_if_unset_fields:
  assumes "name_if_unset self = Inr s"
  shows "\<exists>x. s = self\<lparr>self_name := x\<rparr>"
proof (cases "truthy_str (self_name self)")
  case True
  with assms have "s = self\<lparr>self_name := self_name self\<rparr>"
    by (simp add: name_if_unset_def)
  then show ?thesis by blast
next
  case False
  with assms have "bind (generate_name self) (\<lambda>(_, self). Inr self) = Inr s"
    by (simp add: name_if_unset_def)
  then obtain x where g: "generate_name self = Inr x" and
    e: "(case x of (_, self) \<Rightarrow> Inr self) = Inr s"
    by (rule bind_InrE) auto
  obtain m s' where x: "x = (m, s')" by (cases x)
  from e x have "s' = s" by simp
  with g x generate_name_fields [of self m s] show ?thesis by blast
qed

lemma init_host_or_net_object_eq:
  "init_host_or_net_object self ip netmask_arg CIDR =
     bind
       (if truthy netmask_arg then IPv4Network (PStr (str ip @ ''/'' @ str netmask_arg))
        else if truthy CIDR then IPv4Network (PStr (str ip @ ''/'' @ str CIDR))
        else IPv4Network ip)
       (\<lambda>n. name_if_unset
          (self\<lparr>self_ip := Some n,
             self_type := if prefixlen n = 32 then TypeOf HOST else TypeOf NETWORK\<rparr>))"
proof -
  have upd: "(if prefixlen n = 32 then self\<lparr>self_ip := Some n, self_type := TypeOf HOST\<rparr>
                else self\<lparr>self_ip := Some n, self_type := TypeOf NETWORK\<rparr>)
      = self\<lparr>self_ip := Some n,
          self_type := if prefixlen n = 32 then TypeOf HOST else TypeOf NETWORK\<rparr>" for n
    by simp
  show ?thesis
    unfolding init_host_or_net_object_def Let_def upd ..
qed

lemma init_host_or_net_object_ignores_type:
  "init_host_or_net_object (self\<lparr>self_type := t\<rparr>) ip netmask_arg CIDR
     = init_host_or_net_object self ip netmask_arg CIDR"
  by (simp add: init_host_or_net_object_eq)

text \<open>
  C7. When \<^verbatim>\<open>init_host_or_net_object\<close> succeeds, the object holds the normalized
  network in \<^verbatim>\<open>ip\<close>; its type is HOST exactly when the prefix length of that network
  is 32 and NETWORK exactly when it is not; \<^verbatim>\<open>cli_attributes()\<close> renders
  \<^verbatim>\<open>host <addr>\<close> for prefix length 32 and \<^verbatim>\<open>subnet <addr> <netmask>\<close> otherwise; and
  the result does not depend on the type the object had before, so that constructing
  with HOST or with NETWORK gives the same object.

  The stored network is the one the caller's arguments denote. The mask in effect is
  \<^verbatim>\<open>netmask\<close> when that is a true value, otherwise \<^verbatim>\<open>CIDR\<close> when that is a true
  value, otherwise the text after the slash of \<^verbatim>\<open>ip\<close> when it has one. With such a
  mask, the network address is the address before it and the prefix length is what
  \<^verbatim>\<open>_make_netmask\<close> gives for the mask: the number itself for a mask of decimal digits or
  an integer, and for a dotted mask the prefix length whose netmask is that mask, or its
  complement when the mask is a host mask. With no mask in effect and no slash the
  prefix length is 32 and the address is that of \<^verbatim>\<open>ip\<close>. A false value is no mask:
  \<^verbatim>\<open>None\<close>, the empty string and the integer 0, so that \<^verbatim>\<open>CIDR=0\<close> given as an
  integer leaves the prefix length at 32 and the type at HOST, while the one-character
  string \<^verbatim>\<open>0\<close> is a mask and gives prefix length 0.
\<close>

theorem host_or_net_type_follows_prefix:
  assumes "init_host_or_net_object self ip netmask_arg CIDR = Inr s"
  shows "\<exists>n. self_ip s = Some n
    \<and> (self_type s = TypeOf HOST \<longleftrightarrow> prefixlen n = 32)
    \<and> (self_type s = TypeOf NETWORK \<longleftrightarrow> prefixlen n \<noteq> 32)
    \<and> cli_attributes s =
        Inr (if prefixlen n = 32 then '' host '' @ str_address (network_address n)
             else '' subnet '' @ str_address (network_address n) @ '' ''
                    @ str_address (netmask n))
    \<and> (\<not> truthy netmask_arg \<and> \<not> truthy CIDR \<and> CHR ''/'' \<notin> set (str ip) \<longrightarrow>
         prefixlen n = 32)
    \<and> init_host_or_net_object (self\<lparr>self_type := t\<rparr>) ip netmask_arg CIDR = Inr s
    \<and> NetworkObject_init (a\<lparr>arg_ob_type := TypeOf HOST\<rparr>)
        = NetworkObject_init (a\<lparr>arg_ob_type := TypeOf NETWORK\<rparr>)
    \<and> (\<forall>addr v.
         (truthy netmask_arg \<and> addr = str ip \<and> v = netmask_arg
          \<or> \<not> truthy netmask_arg \<and> truthy CIDR \<and> addr = str ip \<and> v = CIDR
          \<or> \<not> truthy netmask_arg \<and> \<not> truthy CIDR \<and> ip = PStr (addr @ CHR ''/'' # str v))
         \<and> CHR ''/'' \<notin> set addr \<and> CHR ''/'' \<notin> set (str v) \<longrightarrow>
           ip_int_from_string addr = Inr (network_address n)
           \<and> make_netmask (str v) = Inr (prefixlen n)
           \<and> (list_all is_ascii_digit (str v) \<longrightarrow> prefixlen n = digits_val (str v))
           \<and> (\<forall>c. v = PInt c \<longrightarrow> int (prefixlen n) = c)
           \<and> (\<forall>mi. ip_int_from_string (str v) = Inr mi \<longrightarrow>
                netmask n = (if prefix_from_ip_int mi = None then mi XOR ALL_ONES else mi)))
    \<and> (\<not> truthy netmask_arg \<and> \<not> truthy CIDR \<and> CHR ''/'' \<notin> set (str ip) \<longrightarrow>
         (case ip of
            PInt i \<Rightarrow> network_address n = i
          | _ \<Rightarrow> ip_int_from_string (str ip) = Inr (network_address n)))
    \<and> (\<not> truthy netmask_arg \<and> CIDR = PInt 0 \<and> CHR ''/'' \<notin> set (str ip) \<longrightarrow>
         prefixlen n = 32 \<and> self_type s = TypeOf HOST)"
proof -
  let ?parsed =
    "if truthy netmask_arg then IPv4Network (PStr (str ip @ ''/'' @ str netmask_arg))
     else if truthy CIDR then IPv4Network (PStr (str ip @ ''/'' @ str CIDR))
     else IPv4Network ip"
  let ?ty = "\<lambda>n. if prefixlen n = 32 then TypeOf HOST else TypeOf NETWORK"
  note unfold = init_host_or_net_object_eq
  from assms [unfolded unfold] obtain n where
    p: "?parsed = Inr n" and
    u: "name_if_unset (self\<lparr>self_ip := Some n, self_type := ?ty n\<rparr>) = Inr s"
    by (rule bind_InrE) auto
  from name_if_unset_fields [OF u] obtain x where
    s: "s = self\<lparr>self_ip := Some n, self_type := ?ty n, self_name := x\<rparr>"
    by blast
  have ip: "self_ip s = Some n" by (simp add: s)
  have ty: "self_type s = ?ty n" by (simp add: s)
  have host: "self_type s = TypeOf HOST \<longleftrightarrow> prefixlen n = 32" by (simp add: ty)
  have net: "self_type s = TypeOf NETWORK \<longleftrightarrow> prefixlen n \<noteq> 32" by (simp add: ty)
  have cli: "cli_attributes s =
        Inr (if prefixlen n = 32 then '' host '' @ str_address (network_address n)
             else '' subnet '' @ str_address (network_address n) @ '' ''
                    @ str_address (netmask n))"
    by (simp add: cli_attributes_def ip ty attr_def bind_def)
  have alone: "IPv4Network ip = Inr n" if "\<not> truthy netmask_arg" "\<not> truthy CIDR"
    using that p by simp
  have dflt: "\<not> truthy netmask_arg \<and> \<not> truthy CIDR \<and> CHR ''/'' \<notin> set (str ip) \<longrightarrow>
         prefixlen n = 32"
    using alone IPv4Network_without_slash by blast
  have again: "init_host_or_net_object (self\<lparr>self_type := t\<rparr>) ip netmask_arg CIDR = Inr s"
    using assms by (simp add: init_host_or_net_object_ignores_type)
  have same: "NetworkObject_init (a\<lparr>arg_ob_type := TypeOf HOST\<rparr>)
        = NetworkObject_init (a\<lparr>arg_ob_type := TypeOf NETWORK\<rparr>)"
    using init_host_or_net_object_ignores_type
      [where self = "\<lparr>self_description = arg_description a, self_name = arg_object_name a,
            self_type = TypeOf NETWORK, self_ip = None, self_end_ip = None, self_fqdn = None\<rparr>"
          and t = "TypeOf HOST" and ip = "arg_ip a" and netmask_arg = "arg_netmask a"
          and CIDR = "arg_CIDR a"]
    by (simp add: NetworkObject_init_def Let_def)
  have tie: "ip_int_from_string addr = Inr (network_address n)
           \<and> make_netmask (str v) = Inr (prefixlen n)
           \<and> (list_all is_ascii_digit (str v) \<longrightarrow> prefixlen n = digits_val (str v))
           \<and> (\<forall>c. v = PInt c \<longrightarrow> int (prefixlen n) = c)
           \<and> (\<forall>mi. ip_int_from_string (str v) = Inr mi \<longrightarrow>
                netmask n = (if prefix_from_ip_int mi = None then mi XOR ALL_ONES else mi))"
    if given: "truthy netmask_arg \<and> addr = str ip \<and> v = netmask_arg
          \<or> \<not> truthy netmask_arg \<and> truthy CIDR \<and> addr = str ip \<and> v = CIDR
          \<or> \<not> truthy netmask_arg \<and> \<not> truthy CIDR \<and> ip = PStr (addr @ CHR ''/'' # str v)"
      and slash: "CHR ''/'' \<notin> set addr" "CHR ''/'' \<notin> set (str v)"
    for addr v
  proof -
    from given p have "IPv4Network (PStr (addr @ CHR ''/'' # str v)) = Inr n"
      by (elim disjE conjE) simp_all
    from IPv4Network_with_mask [OF slash this]
    have a: "ip_int_from_string addr = Inr (network_address n)"
      and m: "make_netmask (str v) = Inr (prefixlen n)"
      by simp_all
    have d: "prefixlen n = digits_val (str v)" if "list_all is_ascii_digit (str v)"
      using make_netmask_digits [OF that m] .
    have i: "int (prefixlen n) = c" if "v = PInt c" for c
      using make_netmask_str_int [of c "prefixlen n"] m that by simp
    have q: "netmask n = (if prefix_from_ip_int mi = None then mi XOR ALL_ONES else mi)"
      if "ip_int_from_string (str v) = Inr mi" for mi
      using make_netmask_dotted [OF that m] by (simp add: netmask_def)
    from a m d i q show ?thesis by blast
  qed
  then have ties: "\<forall>addr v.
         (truthy netmask_arg \<and> addr = str ip \<and> v = netmask_arg
          \<or> \<not> truthy netmask_arg \<and> truthy CIDR \<and> addr = str ip \<and> v = CIDR
          \<or> \<not> truthy netmask_arg \<and> \<not> truthy CIDR \<and> ip = PStr (addr @ CHR ''/'' # str v))
         \<and> CHR ''/'' \<notin> set addr \<and> CHR ''/'' \<notin> set (str v) \<longrightarrow>
           ip_int_from_string addr = Inr (network_address n)
           \<and> make_netmask (str v) = Inr (prefixlen n)
           \<and> (list_all is_ascii_digit (str v) \<longrightarrow> prefixlen n = digits_val (str v))
           \<and> (\<forall>c. v = PInt c \<longrightarrow> int (prefixlen n) = c)
           \<and> (\<forall>mi. ip_int_from_string (str v) = Inr mi \<longrightarrow>
                netmask n = (if prefix_from_ip_int mi = None then mi XOR ALL_ONES else mi))"
    by (intro allI impI) (elim conjE)
  have plain: "\<not> truthy netmask_arg \<and> \<not> truthy CIDR \<and> CHR ''/'' \<notin> set (str ip) \<longrightarrow>
         (case ip of
            PInt i \<Rightarrow> network_address n = i
          | _ \<Rightarrow> ip_int_from_string (str ip) = Inr (network_address n))"
  proof (intro impI, elim conjE)
    assume f: "\<not> truthy netmask_arg" "\<not> truthy CIDR" and ns: "CHR ''/'' \<notin> set (str ip)"
    note e = alone [OF f]
    show "case ip of
            PInt i \<Rightarrow> network_address n = i
          | _ \<Rightarrow> ip_int_from_string (str ip) = Inr (network_address n)"
    proof (cases ip)
      case PNone
      with e have "IPv4Network_of ''None'' 32 = Inr n"
        by (simp add: IPv4Network_def)
      from IPv4Network_of_fields [OF this] PNone show ?thesis by simp
    next
      case (PInt i)
      with e show ?thesis
        by (auto simp: IPv4Network_def split: if_splits)
    next
      case (PStr x)
      with e ns have "IPv4Network_of x 32 = Inr n"
        by (simp add: IPv4Network_def py_split_no_separator)
      from IPv4Network_of_fields [OF this] PStr show ?thesis by simp
    qed
  qed
  have zero: "\<not> truthy netmask_arg \<and> CIDR = PInt 0 \<and> CHR ''/'' \<notin> set (str ip) \<longrightarrow>
         prefixlen n = 32 \<and> self_type s = TypeOf HOST"
    using dflt host by simp
  show ?thesis
    by (rule exI [where x = n])
      (intro conjI ip host net cli dflt again same ties plain zero)
qed

theorem host_or_net_type_follows_prefix_witness:
  "init_host_or_net_object
     \<lparr>self_description = None, self_name = None, self_type = TypeOf HOST, self_ip = None,
      self_end_ip = None, self_fqdn = None\<rparr>
     (PStr ''10.1.1.0'') (PStr ''255.255.255.0'') PNone
   = Inr \<lparr>self_description = None, self_name = Some ''NET_10.1.1.0_24'',
          self_type = TypeOf NETWORK,
          self_ip = Some \<lparr>network_address = 167837952, prefixlen = 24\<rparr>,
          self_end_ip = None, self_fqdn = None\<rparr>
   \<and> ip_int_from_string ''10.1.1.0'' = Inr 167837952
   \<and> ip_int_from_string ''255.255.255.0'' = Inr 4294967040
   \<and> make_netmask ''255.255.255.0'' = Inr 24
   \<and> netmask \<lparr>network_address = 167837952, prefixlen = 24\<rparr> = 4294967040
   \<and> init_host_or_net_object
       \<lparr>self_description = None, self_name = None, self_type = TypeOf HOST, self_ip = None,
        self_end_ip = None, self_fqdn = None\<rparr>
       (PStr ''10.1.1.0'') PNone (PStr ''24'')
     = Inr \<lparr>self_description = None, self_name = Some ''NET_10.1.1.0_24'',
            self_type = TypeOf NETWORK,
            self_ip = Some \<lparr>network_address = 167837952, prefixlen = 24\<rparr>,
            self_end_ip = None, self_fqdn = None\<rparr>
   \<and> digits_val ''24'' = 24
   \<and> init_host_or_net_object
       \<lparr>self_description = None, self_name = None, self_type = TypeOf HOST, self_ip = None,
        self_end_ip = None, self_fqdn = None\<rparr>
       (PStr ''10.1.1.0'') PNone (PInt 24)
     = Inr \<lparr>self_description = None, self_name = Some ''NET_10.1.1.0_24'',
            self_type = TypeOf NETWORK,
            self_ip = Some \<lparr>network_address = 167837952, prefixlen = 24\<rparr>,
            self_end_ip = None, self_fqdn = None\<rparr>
   \<and> init_host_or_net_object
       \<lparr>self_description = None, self_name = None, self_type = TypeOf HOST, self_ip = None,
        self_end_ip = None, self_fqdn = None\<rparr>
       (PStr ''10.1.1.0/24'') PNone PNone
     = Inr \<lparr>self_description = None, self_name = Some ''NET_10.1.1.0_24'',
            self_type = TypeOf NETWORK,
            self_ip = Some \<lparr>network_address = 167837952, prefixlen = 24\<rparr>,
            self_end_ip = None, self_fqdn = None\<rparr>
   \<and> cli_attributes
       \<lparr>self_description = None, self_name = Some ''NET_10.1.1.0_24'',
        self_type = TypeOf NETWORK,
        self_ip = Some \<lparr>network_address = 167837952, prefixlen = 24\<rparr>,
        self_end_ip = None, self_fqdn = None\<rparr>
     = Inr '' subnet 10.1.1.0 255.255.255.0''
   \<and> init_host_or_net_object
       \<lparr>self_description = None, self_name = None, self_type = TypeOf NETWORK, self_ip = None,
        self_end_ip = None, self_fqdn = None\<rparr>
       (PStr ''10.1.1.5'') PNone PNone
     = Inr \<lparr>self_description = None, self_name = Some ''HOST_10.1.1.5'',
            self_type = TypeOf HOST,
            self_ip = Some \<lparr>network_address = 167837957, prefixlen = 32\<rparr>,
            self_end_ip = None, self_fqdn = None\<rparr>
   \<and> ip_int_from_string ''10.1.1.5'' = Inr 167837957
   \<and> cli_attributes
       \<lparr>self_description = None, self_name = Some ''HOST_10.1.1.5'',
        self_type = TypeOf HOST,
        self_ip = Some \<lparr>network_address = 167837957, prefixlen = 32\<rparr>,
        self_end_ip = None, self_fqdn = None\<rparr>
     = Inr '' host 10.1.1.5''
   \<and> init_host_or_net_object
       \<lparr>self_description = None, self_name = None, self_type = TypeOf NETWORK, self_ip = None,
        self_end_ip = None, self_fqdn = None\<rparr>
       (PStr ''10.1.1.0'') PNone (PInt 0)
     = Inr \<lparr>self_description = None, self_name = Some ''HOST_10.1.1.0'',
            self_type = TypeOf HOST,
            self_ip = Some \<lparr>network_address = 167837952, prefixlen = 32\<rparr>,
            self_end_ip = None, self_fqdn = None\<rparr>
   \<and> cli_attributes
       \<lparr>self_description = None, self_name = Some ''HOST_10.1.1.0'',
        self_type = TypeOf HOST,
        self_ip = Some \<lparr>network_address = 167837952, prefixlen = 32\<rparr>,
        self_end_ip = None, self_fqdn = None\<rparr>
     = Inr '' host 10.1.1.0''"
proof -
  let ?h0 = "\<lparr>self_description = None, self_name = None, self_type = TypeOf HOST, self_ip = None,
      self_end_ip = None, self_fqdn = None\<rparr>"
  let ?n0 = "\<lparr>self_description = None, self_name = None, self_type = TypeOf NETWORK,
      self_ip = None, self_end_ip = None, self_fqdn = None\<rparr>"
  let ?N = "\<lparr>self_description = None, self_name = Some ''NET_10.1.1.0_24'',
          self_type = TypeOf NETWORK,
          self_ip = Some \<lparr>network_address = 167837952, prefixlen = 24\<rparr>,
          self_end_ip = None, self_fqdn = None\<rparr>"
  let ?H = "\<lparr>self_description = None, self_name = Some ''HOST_10.1.1.5'',
            self_type = TypeOf HOST,
            self_ip = Some \<lparr>network_address = 167837957, prefixlen = 32\<rparr>,
            self_end_ip = None, self_fqdn = None\<rparr>"
  let ?Z = "\<lparr>self_description = None, self_name = Some ''HOST_10.1.1.0'',
            self_type = TypeOf HOST,
            self_ip = Some \<lparr>network_address = 167837952, prefixlen = 32\<rparr>,
            self_end_ip = None, self_fqdn = None\<rparr>"
  let ?net = "\<lparr>network_address = 167837952, prefixlen = 24\<rparr>"
  have m: "init_host_or_net_object ?h0 (PStr ''10.1.1.0'') (PStr ''255.255.255.0'') PNone = Inr ?N"
    by code_simp
  have a: "init_host_or_net_object ?h0 (PStr ''10.1.1.0'') PNone (PStr ''24'') = Inr ?N"
    by code_simp
  have i: "init_host_or_net_object ?h0 (PStr ''10.1.1.0'') PNone (PInt 24) = Inr ?N"
    by code_simp
  have sl: "init_host_or_net_object ?h0 (PStr ''10.1.1.0/24'') PNone PNone = Inr ?N"
    by code_simp
  have b: "init_host_or_net_object ?n0 (PStr ''10.1.1.5'') PNone PNone = Inr ?H"
    by code_simp
  have z: "init_host_or_net_object ?n0 (PStr ''10.1.1.0'') PNone (PInt 0) = Inr ?Z"
    by code_simp
  have mi: "ip_int_from_string ''255.255.255.0'' = Inr 4294967040" by code_simp
  have pm: "prefix_from_ip_int 4294967040 \<noteq> None" by code_simp
  have am: "str_address 4294967040 = ''255.255.255.0''" by code_simp
  have aa: "str_address 167837952 = ''10.1.1.0''" by code_simp
  have ba: "str_address 167837957 = ''10.1.1.5''" by code_simp
  have dg: "list_all is_ascii_digit ''24''" by code_simp
  from host_or_net_type_follows_prefix [OF m]
  have tm: "ip_int_from_string ''10.1.1.0'' = Inr 167837952
      \<and> make_netmask ''255.255.255.0'' = Inr 24
      \<and> netmask ?net = 4294967040"
    using mi pm by simp
  from host_or_net_type_follows_prefix [OF a]
  have ta: "digits_val ''24'' = 24"
    using dg by simp
  from host_or_net_type_follows_prefix [OF a]
  have ca: "cli_attributes ?N = Inr '' subnet 10.1.1.0 255.255.255.0''"
    using am aa tm by simp
  from host_or_net_type_follows_prefix [OF b]
  have tb: "ip_int_from_string ''10.1.1.5'' = Inr 167837957"
    by simp
  from host_or_net_type_follows_prefix [OF b]
  have cb: "cli_attributes ?H = Inr '' host 10.1.1.5''"
    using ba by simp
  from host_or_net_type_follows_prefix [OF z]
  have cz: "cli_attributes ?Z = Inr '' host 10.1.1.0''"
    using aa by simp
  show ?thesis
    by (intro conjI m a i sl b z mi tm [THEN conjunct1] tm [THEN conjunct2, THEN conjunct1]
        tm [THEN conjunct2, THEN conjunct2] ta tb ca cb cz)
qed

end
